theory Spec2Isabelle
  imports Main
begin

section \<open>Time values and the two library calls of \<open>first_touch.py\<close>\<close>

text \<open>
  A Python \<open>datetime\<close> carries the reading of its own clock and, when it is timezone-aware,
  the offset of that clock from UTC. \<open>wall\<close> is the reading, in microseconds since
  1970-01-01T00:00:00 on that clock (the resolution of \<open>datetime\<close>); \<open>utcoffset\<close> is \<open>None\<close>
  for a naive value and the offset in microseconds for an aware one.

  Python compares and subtracts two aware values by their UTC instants and two naive values
  by their readings; for one naive and one aware value \<open><=\<close> and \<open>-\<close> raise \<open>TypeError\<close>.
\<close>

record datetime =
  wall :: int
  utcoffset :: "int option"

definition aware_utc :: "int \<Rightarrow> datetime" where
  "aware_utc us = \<lparr>wall = us, utcoffset = Some 0\<rparr>"

definition naive :: "int \<Rightarrow> datetime" where
  "naive us = \<lparr>wall = us, utcoffset = None\<rparr>"

definition utc_us :: "datetime \<Rightarrow> int" where
  "utc_us dt = wall dt - (case utcoffset dt of None \<Rightarrow> 0 | Some off \<Rightarrow> off)"

definition comparable :: "datetime \<Rightarrow> datetime \<Rightarrow> bool" where
  "comparable a b = ((utcoffset a = None) = (utcoffset b = None))"

text \<open>\<open>a <= b\<close> and \<open>a - b\<close>; \<open>None\<close> is the \<open>TypeError\<close>.\<close>

definition dt_le :: "datetime \<Rightarrow> datetime \<Rightarrow> bool option" where
  "dt_le a b = (if comparable a b then Some (utc_us a \<le> utc_us b) else None)"

definition dt_sub :: "datetime \<Rightarrow> datetime \<Rightarrow> int option" where
  "dt_sub a b = (if comparable a b then Some (utc_us a - utc_us b) else None)"

text \<open>
  Two library calls are not part of the repository and are taken as parameters:
  \<^item> \<open>date_parser_parse\<close> is \<open>dateutil.parser.parse\<close>; \<open>None\<close> stands for the call raising;
  \<^item> \<open>strftime_iso\<close> is \<open>dt.strftime('%Y-%m-%dT%H:%M:%S.000Z')\<close>. The format has no zone
    directive and no fraction, so the text depends on the reading of the clock only: it
    prints the reading down to the second, whatever the offset, followed by the literal
    \<open>.000Z\<close>.
\<close>

record pylib =
  date_parser_parse :: "string \<Rightarrow> datetime option"
  strftime_iso :: "int \<Rightarrow> string"

definition parse_dt :: "pylib \<Rightarrow> string option \<Rightarrow> datetime option" where
  "parse_dt lib dt_str =
     (case dt_str of
        None \<Rightarrow> None
      | Some s \<Rightarrow> if s = [] then None else date_parser_parse lib s)"

definition iso :: "pylib \<Rightarrow> datetime \<Rightarrow> string" where
  "iso lib dt = strftime_iso lib (wall dt)"

text \<open>
  \<open>int(x / 60)\<close> on the difference in seconds: Python's \<open>int\<close> truncates toward zero.
  The float division is taken exactly, on microseconds. \<open>ttfr_minutes_of\<close> takes the two
  UTC instants (or the two readings of naive values).
\<close>

definition int_trunc_div :: "int \<Rightarrow> int \<Rightarrow> int" where
  "int_trunc_div a b = (if 0 \<le> a then a div b else - ((- a) div b))"

definition ttfr_minutes_of :: "int \<Rightarrow> int \<Rightarrow> int" where
  "ttfr_minutes_of candidate_us created_us =
     int_trunc_div (candidate_us - created_us) 60000000"

section \<open>The lead record and the record store client\<close>

text \<open>
  The dict returned by \<open>get_record\<close> for the six requested fields. Salesforce returns every
  requested field, \<open>null\<close> (here \<open>None\<close>) when it is empty.
\<close>

record lead =
  CreatedDate :: "string option"
  First_Response_At__c :: "string option"
  First_Response_User__c :: "string option"
  First_Response_Source__c :: "string option"
  Time_to_First_Response__c :: "int option"

text \<open>The dict of four fields passed to \<open>update_record\<close>.\<close>

record lead_update =
  upd_First_Response_At__c :: string
  upd_First_Response_User__c :: string
  upd_First_Response_Source__c :: string
  upd_Time_to_First_Response__c :: int

text \<open>One row of the Task query and of the EmailMessage query.\<close>

record task_row =
  Task_CreatedDate :: "string option"
  Task_OwnerId :: string

record email_row =
  Email_MessageDate :: "string option"
  Email_CreatedById :: string

text \<open>
  The client \<open>sf_client\<close> is any object with these methods, over a state \<open>'s\<close> of the
  remote store. \<open>Inl msg\<close> is a raised exception with \<open>str(e) = msg\<close>. The two SOQL texts of
  \<open>find_and_record_first_touch\<close> are the two query methods, applied to the lead id.
\<close>

record 's sf_client =
  get_record :: "'s \<Rightarrow> string \<Rightarrow> string + lead"
  update_record :: "'s \<Rightarrow> string \<Rightarrow> lead_update \<Rightarrow> string + 's"
  query_task :: "'s \<Rightarrow> string \<Rightarrow> string + task_row list"
  query_email :: "'s \<Rightarrow> string \<Rightarrow> string + email_row list"

section \<open>\<open>FirstTouchDetector\<close>\<close>

datatype result =
    Error string
  | Skipped string datetime datetime
  | Updated string datetime string string int int bool

text \<open>
  \<open>Skipped reason existing_dt candidate_dt\<close>;
  \<open>Updated lead_id first_response_at user_id source ttfr_minutes ttfr_microseconds
  replaced_existing\<close>.

  A call either returns a value or leaves with the \<open>TypeError\<close> of a comparison or a
  subtraction of a naive and an aware \<open>datetime\<close>: both operations stand outside every
  \<open>try\<close> of the two methods.
\<close>

datatype 'a outcome = Returned 'a | Raised_TypeError

text \<open>
  Lines 136 to 191 of \<open>detect_first_touch\<close>, the part after the comparison with the
  existing value ("Candidate is earlier (or no existing) - update"); both ways into it
  continue here. \<open>existing_dt\<close> is only used for \<open>replaced_existing\<close>.
\<close>

definition update_first_touch ::
  "pylib \<Rightarrow> 's sf_client \<Rightarrow> 's \<Rightarrow> lead \<Rightarrow> datetime option \<Rightarrow>
   string \<Rightarrow> datetime \<Rightarrow> string \<Rightarrow> string \<Rightarrow> result outcome \<times> 's" where
  "update_first_touch lib sf s lead existing_dt lead_id candidate_dt user_id source =
     (case parse_dt lib (CreatedDate lead) of
        None \<Rightarrow> (Returned (Error ''Missing CreatedDate''), s)
      | Some created_dt \<Rightarrow>
          (case dt_sub candidate_dt created_dt of
             None \<Rightarrow> (Raised_TypeError, s)
           | Some ttfr_seconds \<Rightarrow>
               (let ttfr_minutes = int_trunc_div ttfr_seconds 60000000
                in (case update_record sf s lead_id
                           \<lparr>upd_First_Response_At__c = iso lib candidate_dt,
                            upd_First_Response_User__c = user_id,
                            upd_First_Response_Source__c = source,
                            upd_Time_to_First_Response__c = ttfr_minutes\<rparr> of
                      Inl e \<Rightarrow> (Returned (Error e), s)
                    | Inr s' \<Rightarrow>
                        (Returned (Updated lead_id candidate_dt user_id source ttfr_minutes
                                     ttfr_seconds (existing_dt \<noteq> None)), s')))))"

definition detect_first_touch ::
  "pylib \<Rightarrow> 's sf_client \<Rightarrow> 's \<Rightarrow> string \<Rightarrow> datetime \<Rightarrow> string \<Rightarrow> string \<Rightarrow>
   result outcome \<times> 's" where
  "detect_first_touch lib sf s lead_id candidate_dt user_id source =
     (case get_record sf s lead_id of
        Inl e \<Rightarrow> (Returned (Error e), s)
      | Inr lead \<Rightarrow>
          (let existing_dt = parse_dt lib (First_Response_At__c lead) in
           (case existing_dt of
              Some existing \<Rightarrow>
                (case dt_le existing candidate_dt of
                   None \<Rightarrow> (Raised_TypeError, s)
                 | Some le \<Rightarrow>
                     if le
                     then (Returned (Skipped ''existing_earlier'' existing candidate_dt), s)
                     else update_first_touch lib sf s lead existing_dt
                            lead_id candidate_dt user_id source)
            | None \<Rightarrow>
                update_first_touch lib sf s lead existing_dt
                  lead_id candidate_dt user_id source)))"

text \<open>
  \<open>find_and_record_first_touch\<close>. The source keeps \<open>earliest_task_dt\<close> and \<open>task_user_id\<close> in
  two variables that are set together under \<open>if tasks:\<close>; here they are one optional pair,
  and likewise for the email. A \<open>datetime\<close> is always truthy, so \<open>if earliest_task_dt\<close> asks
  whether it is not \<open>None\<close>. The result \<open>None\<close> is the \<open>return None\<close> of the last line. The
  comparison of the two dates, like the call of \<open>detect_first_touch\<close>, stands outside the
  \<open>try\<close>.
\<close>

definition find_and_record_first_touch ::
  "pylib \<Rightarrow> 's sf_client \<Rightarrow> 's \<Rightarrow> string \<Rightarrow> result option outcome \<times> 's" where
  "find_and_record_first_touch lib sf s lead_id =
     (case query_task sf s lead_id of
        Inl e \<Rightarrow> (Returned (Some (Error e)), s)
      | Inr tasks \<Rightarrow>
          (case query_email sf s lead_id of
             Inl e \<Rightarrow> (Returned (Some (Error e)), s)
           | Inr emails \<Rightarrow>
               (let earliest_task =
                      (case tasks of
                         [] \<Rightarrow> None
                       | t # _ \<Rightarrow>
                           map_option (\<lambda>d. (d, Task_OwnerId t))
                             (parse_dt lib (Task_CreatedDate t)));
                    earliest_email =
                      (case emails of
                         [] \<Rightarrow> None
                       | m # _ \<Rightarrow>
                           map_option (\<lambda>d. (d, Email_CreatedById m))
                             (parse_dt lib (Email_MessageDate m)))
                in (case (earliest_task, earliest_email) of
                      (Some (task_dt, task_user), Some (email_dt, email_user)) \<Rightarrow>
                        (case dt_le task_dt email_dt of
                           None \<Rightarrow> (Raised_TypeError, s)
                         | Some le \<Rightarrow>
                             if le
                             then apfst (map_outcome Some)
                                    (detect_first_touch lib sf s lead_id task_dt task_user ''Task'')
                             else apfst (map_outcome Some)
                                    (detect_first_touch lib sf s lead_id email_dt email_user
                                       ''EmailMessage''))
                    | (Some (task_dt, task_user), None) \<Rightarrow>
                        apfst (map_outcome Some)
                          (detect_first_touch lib sf s lead_id task_dt task_user ''Task'')
                    | (None, Some (email_dt, email_user)) \<Rightarrow>
                        apfst (map_outcome Some)
                          (detect_first_touch lib sf s lead_id email_dt email_user ''EmailMessage'')
                    | (None, None) \<Rightarrow> (Returned None, s)))))"

text \<open>
  Applying \<open>detect_first_touch\<close> once per candidate, in the order of the list; what the
  calls return or raise is dropped, the store is threaded through.
\<close>

record candidate =
  cand_dt :: datetime
  cand_user :: string
  cand_source :: string

fun apply_candidates ::
  "pylib \<Rightarrow> 's sf_client \<Rightarrow> string \<Rightarrow> candidate list \<Rightarrow> 's \<Rightarrow> 's" where
  "apply_candidates lib sf lead_id [] s = s"
| "apply_candidates lib sf lead_id (c # cs) s =
     apply_candidates lib sf lead_id cs
       (snd (detect_first_touch lib sf s lead_id (cand_dt c) (cand_user c) (cand_source c)))"

section \<open>A reference record store\<close>

text \<open>
  Modelled from the spec: the Record Store client is an external collaborator (section 6:
  \<open>get_record\<close> fails with \<open>NotFound\<close>, \<open>update_record\<close> is an atomic partial-field update,
  \<open>query\<close> returns an ordered sequence). This instance keeps the records in a map, answers
  the two queries from stored row lists, and logs every \<open>update_record\<close> call. A read
  returns what was last written and a write to an existing record never fails.
\<close>

record mem_store =
  records :: "string \<rightharpoonup> lead"
  task_rows :: "string \<Rightarrow> task_row list"
  email_rows :: "string \<Rightarrow> email_row list"
  update_log :: "(string \<times> lead_update) list"

definition apply_update :: "lead \<Rightarrow> lead_update \<Rightarrow> lead" where
  "apply_update l u =
     l\<lparr>First_Response_At__c := Some (upd_First_Response_At__c u),
       First_Response_User__c := Some (upd_First_Response_User__c u),
       First_Response_Source__c := Some (upd_First_Response_Source__c u),
       Time_to_First_Response__c := Some (upd_Time_to_First_Response__c u)\<rparr>"

definition mem_get_record :: "mem_store \<Rightarrow> string \<Rightarrow> string + lead" where
  "mem_get_record s lead_id =
     (case records s lead_id of None \<Rightarrow> Inl ''NotFound'' | Some l \<Rightarrow> Inr l)"

definition mem_update_record :: "mem_store \<Rightarrow> string \<Rightarrow> lead_update \<Rightarrow> string + mem_store" where
  "mem_update_record s lead_id u =
     (case records s lead_id of
        None \<Rightarrow> Inl ''NotFound''
      | Some l \<Rightarrow>
          Inr (s\<lparr>records := (records s)(lead_id \<mapsto> apply_update l u),
                 update_log := update_log s @ [(lead_id, u)]\<rparr>))"

definition mem_sf :: "mem_store sf_client" where
  "mem_sf =
     \<lparr>get_record = mem_get_record,
      update_record = mem_update_record,
      query_task = (\<lambda>s lead_id. Inr (task_rows s lead_id)),
      query_email = (\<lambda>s lead_id. Inr (email_rows s lead_id))\<rparr>"

section \<open>Example values\<close>

text \<open>
  The part of the two library functions that the examples use. \<open>example_strftime\<close> prints
  the clock readings of 2025-01-15 and 2025-11-01 that occur below, down to the second.
  \<open>example_parse\<close> reads these texts as \<open>dateutil\<close> does, as aware UTC values (the \<open>Z\<close>), and
  rejects every other text, among them \<open>'invalid'\<close>.
\<close>

definition example_strftime :: "int \<Rightarrow> string" where
  "example_strftime w =
     (let sec = w div 1000000 in
      if sec = 1736935110 then ''2025-01-15T09:58:30.000Z''
      else if sec = 1736935200 then ''2025-01-15T10:00:00.000Z''
      else if sec = 1736936400 then ''2025-01-15T10:20:00.000Z''
      else if sec = 1736936700 then ''2025-01-15T10:25:00.000Z''
      else if sec = 1736937000 then ''2025-01-15T10:30:00.000Z''
      else if sec = 1736943900 then ''2025-01-15T12:25:00.000Z''
      else if sec = 1761991200 then ''2025-11-01T10:00:00.000Z''
      else if sec = 1761993000 then ''2025-11-01T10:30:00.000Z''
      else if sec = 1761993900 then ''2025-11-01T10:45:00.000Z''
      else ''other'')"

definition example_parse :: "string \<Rightarrow> datetime option" where
  "example_parse s =
     (if s = ''2025-01-15T09:58:30.000Z'' then Some (aware_utc 1736935110000000)
      else if s = ''2025-01-15T10:00:00.000Z'' then Some (aware_utc 1736935200000000)
      else if s = ''2025-01-15T10:00:00.300Z'' then Some (aware_utc 1736935200300000)
      else if s = ''2025-01-15T10:20:00.000Z'' then Some (aware_utc 1736936400000000)
      else if s = ''2025-01-15T10:25:00.000Z'' then Some (aware_utc 1736936700000000)
      else if s = ''2025-01-15T10:30:00.000Z'' then Some (aware_utc 1736937000000000)
      else if s = ''2025-01-15T12:25:00.000Z'' then Some (aware_utc 1736943900000000)
      else if s = ''2025-11-01T10:00:00.000Z'' then Some (aware_utc 1761991200000000)
      else if s = ''2025-11-01T10:30:00.000Z'' then Some (aware_utc 1761993000000000)
      else if s = ''2025-11-01T10:45:00.000Z'' then Some (aware_utc 1761993900000000)
      else None)"

definition example_lib :: pylib where
  "example_lib = \<lparr>date_parser_parse = example_parse, strftime_iso = example_strftime\<rparr>"

definition example_lead :: lead where
  "example_lead =
     \<lparr>CreatedDate = Some ''2025-01-15T10:00:00.000Z'',
      First_Response_At__c = None,
      First_Response_User__c = None,
      First_Response_Source__c = None,
      Time_to_First_Response__c = None\<rparr>"

definition example_store_with :: "lead \<Rightarrow> task_row list \<Rightarrow> email_row list \<Rightarrow> mem_store" where
  "example_store_with l tasks emails =
     \<lparr>records = [''00Q1'' \<mapsto> l],
      task_rows = (\<lambda>_. tasks),
      email_rows = (\<lambda>_. emails),
      update_log = []\<rparr>"

definition example_store :: "lead \<Rightarrow> mem_store" where
  "example_store l = example_store_with l [] []"

definition responded_lead :: lead where
  "responded_lead = example_lead\<lparr>First_Response_At__c := Some ''2025-01-15T10:20:00.000Z''\<rparr>"

definition garbled_lead :: lead where
  "garbled_lead = example_lead\<lparr>First_Response_At__c := Some ''invalid''\<rparr>"

definition undated_lead :: lead where
  "undated_lead = example_lead\<lparr>CreatedDate := None\<rparr>"

definition misdated_lead :: lead where
  "misdated_lead = responded_lead\<lparr>CreatedDate := Some ''invalid''\<rparr>"

definition fractional_lead :: lead where
  "fractional_lead = example_lead\<lparr>CreatedDate := Some ''2025-01-15T10:00:00.300Z''\<rparr>"

text \<open>
  The lead that the mock of \<open>test_first_touch_candidate_later\<close> returns, created at 10:00:00
  and answered at 10:30:00 on 2025-11-01, both texts written by \<open>iso\<close>.
\<close>

definition test_lead :: lead where
  "test_lead =
     \<lparr>CreatedDate = Some ''2025-11-01T10:00:00.000Z'',
      First_Response_At__c = Some ''2025-11-01T10:30:00.000Z'',
      First_Response_User__c = Some ''0055e000000User2'',
      First_Response_Source__c = None,
      Time_to_First_Response__c = None\<rparr>"

definition test_store :: mem_store where
  "test_store =
     \<lparr>records = [''00Q5e000001AbcD'' \<mapsto> test_lead],
      task_rows = (\<lambda>_. []),
      email_rows = (\<lambda>_. []),
      update_log = []\<rparr>"

definition cand :: "datetime \<Rightarrow> string \<Rightarrow> string \<Rightarrow> candidate" where
  "cand dt user_id source = \<lparr>cand_dt = dt, cand_user = user_id, cand_source = source\<rparr>"

text \<open>
  The UTC instant of a candidate; the candidate that a run of \<open>apply_candidates\<close> leaves on
  the lead; and the lead after the four fields of a candidate are written. They are used to
  state the convergence property.
\<close>

definition cand_us :: "candidate \<Rightarrow> int" where
  "cand_us c = utc_us (cand_dt c)"

fun earliest_candidate :: "candidate \<Rightarrow> candidate list \<Rightarrow> candidate" where
  "earliest_candidate w [] = w"
| "earliest_candidate w (c # cs) =
     earliest_candidate (if cand_us c < cand_us w then c else w) cs"

definition written :: "pylib \<Rightarrow> lead \<Rightarrow> datetime \<Rightarrow> candidate \<Rightarrow> lead" where
  "written lib l created_dt c =
     l\<lparr>First_Response_At__c := Some (iso lib (cand_dt c)),
       First_Response_User__c := Some (cand_user c),
       First_Response_Source__c := Some (cand_source c),
       Time_to_First_Response__c :=
         Some (ttfr_minutes_of (cand_us c) (utc_us created_dt))\<rparr>"

section \<open>\<open>ReplayStore\<close>: the cursor file\<close>

text \<open>
  Exceptions are values, all of them instances of \<open>Exception\<close>; \<open>Raised n\<close> is an exception
  of any other class, \<open>n\<close> its class name (\<open>type(e).__name__\<close>).
\<close>

datatype py_exn = FileNotFoundError | JSONDecodeError | PermissionError | Raised string

fun exn_name :: "py_exn \<Rightarrow> string" where
  "exn_name FileNotFoundError = ''FileNotFoundError''"
| "exn_name JSONDecodeError = ''JSONDecodeError''"
| "exn_name PermissionError = ''PermissionError''"
| "exn_name (Raised n) = n"

text \<open>
  The file at \<open>self.path\<close>. Its text is either not JSON or the \<open>json.dumps\<close> of a mapping
  from channel to replay id; \<open>json.loads\<close> of the latter gives the mapping back. The file
  may be missing, and reading or writing it may be refused by the operating system.
  The lock of \<open>set\<close> and \<open>clear\<close> plays no role in this sequential model.
\<close>

datatype content = NotJson | JsonObject "string \<rightharpoonup> string"

record disk =
  disk_file :: "content option"
  read_denied :: bool
  write_denied :: bool

definition read_text :: "disk \<Rightarrow> py_exn + content" where
  "read_text d =
     (case disk_file d of
        None \<Rightarrow> Inl FileNotFoundError
      | Some c \<Rightarrow> if read_denied d then Inl PermissionError else Inr c)"

definition write_text :: "disk \<Rightarrow> content \<Rightarrow> py_exn + disk" where
  "write_text d c = (if write_denied d then Inl PermissionError else Inr (d\<lparr>disk_file := Some c\<rparr>))"

definition json_loads :: "content \<Rightarrow> py_exn + (string \<rightharpoonup> string)" where
  "json_loads c = (case c of NotJson \<Rightarrow> Inl JSONDecodeError | JsonObject m \<Rightarrow> Inr m)"

definition json_dumps :: "(string \<rightharpoonup> string) \<Rightarrow> content" where
  "json_dumps m = JsonObject m"

definition ReplayStore_read :: "disk \<Rightarrow> py_exn + (string \<rightharpoonup> string)" where
  "ReplayStore_read d =
     (case (case read_text d of Inl e \<Rightarrow> Inl e | Inr c \<Rightarrow> json_loads c) of
        Inl e \<Rightarrow>
          if e = JSONDecodeError \<or> e = FileNotFoundError then Inr Map.empty else Inl e
      | Inr data \<Rightarrow> Inr data)"

definition ReplayStore_write :: "disk \<Rightarrow> (string \<rightharpoonup> string) \<Rightarrow> py_exn + disk" where
  "ReplayStore_write d data =
     (case write_text d (json_dumps data) of Inl e \<Rightarrow> Inl e | Inr d' \<Rightarrow> Inr d')"

definition ReplayStore_get :: "disk \<Rightarrow> string \<Rightarrow> py_exn + string option" where
  "ReplayStore_get d channel =
     (case ReplayStore_read d of Inl e \<Rightarrow> Inl e | Inr data \<Rightarrow> Inr (data channel))"

definition ReplayStore_set :: "disk \<Rightarrow> string \<Rightarrow> string \<Rightarrow> py_exn + disk" where
  "ReplayStore_set d channel replay_id =
     (case ReplayStore_read d of
        Inl e \<Rightarrow> Inl e
      | Inr data \<Rightarrow> ReplayStore_write d (data(channel \<mapsto> replay_id)))"

section \<open>\<open>CDCSubscriber\<close>\<close>

text \<open>Python values that a replay id takes: \<open>None\<close>, a string or an integer.\<close>

datatype pyval = PNone | PStr string | PInt int

fun truthy :: "pyval \<Rightarrow> bool" where
  "truthy PNone = False"
| "truthy (PStr s) = (s \<noteq> [])"
| "truthy (PInt i) = (i \<noteq> 0)"

fun str_nat :: "nat \<Rightarrow> string" where
  "str_nat n =
     (if n < 10 then [''0123456789'' ! n]
      else str_nat (n div 10) @ [''0123456789'' ! (n mod 10)])"

declare str_nat.simps [simp del]

fun py_str :: "pyval \<Rightarrow> string" where
  "py_str PNone = ''None''"
| "py_str (PStr s) = s"
| "py_str (PInt i) = (if i < 0 then CHR ''-'' # str_nat (nat (- i)) else str_nat (nat i))"

text \<open>\<open>sub in s\<close> on strings.\<close>

fun py_in :: "string \<Rightarrow> string \<Rightarrow> bool" where
  "py_in sub [] = (sub = [])"
| "py_in sub (c # cs) = (take (length sub) (c # cs) = sub \<or> py_in sub cs)"

definition extract_object_name :: "string \<Rightarrow> string" where
  "extract_object_name channel =
     (if py_in ''Lead'' channel then ''Lead''
      else if py_in ''Task'' channel then ''Task''
      else if py_in ''EmailMessage'' channel then ''EmailMessage''
      else ''Unknown'')"

text \<open>
  The envelope, as \<open>_process_event\<close> reads it through its chains of \<open>.get\<close> with \<open>{}\<close>
  defaults: \<open>ev_changeType\<close> and \<open>ev_commitTimestamp\<close> are the two header entries (\<open>None\<close>
  when a key on the way is missing), \<open>ev_replayId\<close> is \<open>data.event.replayId\<close> (\<open>PNone\<close> when
  missing) and \<open>ev_payload\<close> is \<open>data.payload\<close>, the argument of the handler.
\<close>

record 'p event =
  ev_changeType :: "string option"
  ev_commitTimestamp :: "int option"
  ev_replayId :: pyval
  ev_payload :: 'p

text \<open>
  A handler acts on a state \<open>'w\<close> of its own (the workloads and what they reach); it returns
  the exception it raised, if any, and the state it left. The subscriber carries the cursor
  file, the registered handlers, the Prometheus counters and gauges, and a log of the
  calls to \<open>replay_store.set\<close> and to handlers, in the order in which they are made.
\<close>

datatype 'p action =
    Store_set string string
  | Handler_call string 'p
  | Error_counted string string

record ('p, 'w) subscriber =
  replay_store :: disk
  handlers :: "string \<rightharpoonup> ('p \<Rightarrow> 'w \<Rightarrow> py_exn option \<times> 'w)"
  cdc_events_total :: "string \<times> string \<Rightarrow> nat"
  cdc_lag_ms :: "string \<rightharpoonup> int"
  last_event_ts :: "string \<rightharpoonup> int"
  cdc_errors_total :: "string \<times> string \<Rightarrow> nat"
  world :: 'w
  trace :: "'p action list"

definition register_handler ::
  "string \<Rightarrow> ('p \<Rightarrow> 'w \<Rightarrow> py_exn option \<times> 'w) \<Rightarrow> ('p, 'w) subscriber \<Rightarrow> ('p, 'w) subscriber" where
  "register_handler channel handler sub = sub\<lparr>handlers := (handlers sub)(channel \<mapsto> handler)\<rparr>"

text \<open>The \<open>except Exception\<close> clause of \<open>_process_event\<close>.\<close>

definition on_exception :: "string \<Rightarrow> py_exn \<Rightarrow> ('p, 'w) subscriber \<Rightarrow> ('p, 'w) subscriber" where
  "on_exception object_name e sub =
     sub\<lparr>cdc_errors_total :=
           (cdc_errors_total sub)
             ((object_name, exn_name e) := Suc (cdc_errors_total sub (object_name, exn_name e))),
         trace := trace sub @ [Error_counted object_name (exn_name e)]\<rparr>"

text \<open>Lines 145 to 161 of \<open>_process_event\<close> ("Call handler"), inside the \<open>try\<close>.\<close>

definition call_handler ::
  "string \<Rightarrow> string \<Rightarrow> 'p event \<Rightarrow> ('p, 'w) subscriber \<Rightarrow> ('p, 'w) subscriber" where
  "call_handler object_name channel event sub =
     (case handlers sub channel of
        None \<Rightarrow> sub
      | Some handler \<Rightarrow>
          (let called = sub\<lparr>trace := trace sub @ [Handler_call channel (ev_payload event)]\<rparr> in
           (case handler (ev_payload event) (world sub) of
              (None, w') \<Rightarrow> called\<lparr>world := w'\<rparr>
            | (Some e, w') \<Rightarrow> on_exception object_name e (called\<lparr>world := w'\<rparr>))))"

text \<open>
  \<open>_process_event\<close>; \<open>now_ms\<close> is the reading of \<open>time.time()\<close>, in milliseconds (the lag is
  kept in milliseconds instead of float seconds).
\<close>

definition process_event ::
  "int \<Rightarrow> string \<Rightarrow> 'p event \<Rightarrow> ('p, 'w) subscriber \<Rightarrow> ('p, 'w) subscriber" where
  "process_event now_ms channel event sub =
     (let object_name = extract_object_name channel;
          change_type = (case ev_changeType event of None \<Rightarrow> ''UNKNOWN'' | Some c \<Rightarrow> c);
          counted =
            sub\<lparr>cdc_events_total :=
                  (cdc_events_total sub)
                    ((object_name, change_type) :=
                       Suc (cdc_events_total sub (object_name, change_type)))\<rparr>;
          lagged =
            (case ev_commitTimestamp event of
               None \<Rightarrow> counted
             | Some commit_timestamp \<Rightarrow>
                 if commit_timestamp = 0 then counted
                 else counted\<lparr>cdc_lag_ms :=
                                (cdc_lag_ms counted)(object_name \<mapsto> now_ms - commit_timestamp),
                              last_event_ts := (last_event_ts counted)(object_name \<mapsto> now_ms)\<rparr>);
          replay_id = ev_replayId event
      in if truthy replay_id
         then (case ReplayStore_set (replay_store lagged) channel (py_str replay_id) of
                 Inl e \<Rightarrow> on_exception object_name e lagged
               | Inr d \<Rightarrow>
                   call_handler object_name channel event
                     (lagged\<lparr>replay_store := d,
                             trace := trace lagged @ [Store_set channel (py_str replay_id)]\<rparr>))
         else call_handler object_name channel event lagged)"



subsection \<open>Example values\<close>

definition empty_disk :: disk where
  "empty_disk = \<lparr>disk_file = None, read_denied = False, write_denied = False\<rparr>"

definition locked_disk :: disk where
  "locked_disk =
     \<lparr>disk_file = Some (JsonObject [''/data/LeadChangeEvent'' \<mapsto> ''41'']),
      read_denied = True, write_denied = True\<rparr>"

definition stored_disk :: disk where
  "stored_disk =
     \<lparr>disk_file = Some (JsonObject [''/data/LeadChangeEvent'' \<mapsto> ''41'']),
      read_denied = False, write_denied = False\<rparr>"

definition corrupt_disk :: disk where
  "corrupt_disk = \<lparr>disk_file = Some NotJson, read_denied = False, write_denied = False\<rparr>"

definition example_handler :: "string \<Rightarrow> nat \<Rightarrow> py_exn option \<times> nat" where
  "example_handler payload w =
     (if payload = ''bad'' then (Some (Raised ''ValueError''), w) else (None, Suc w))"

definition example_subscriber :: "(string, nat) subscriber" where
  "example_subscriber =
     \<lparr>replay_store = empty_disk,
      handlers = [''/data/LeadChangeEvent'' \<mapsto> example_handler],
      cdc_events_total = (\<lambda>_. 0),
      cdc_lag_ms = Map.empty,
      last_event_ts = Map.empty,
      cdc_errors_total = (\<lambda>_. 0),
      world = 0,
      trace = []\<rparr>"

definition example_event :: "pyval \<Rightarrow> string \<Rightarrow> string event" where
  "example_event rid p =
     \<lparr>ev_changeType = Some ''CREATE'',
      ev_commitTimestamp = Some 1736935200000,
      ev_replayId = rid,
      ev_payload = p\<rparr>"


section \<open>Properties of the first-response detector\<close>

lemmas time_defs = aware_utc_def naive_def utc_us_def comparable_def dt_le_def dt_sub_def

lemmas example_defs =
  example_lib_def example_parse_def example_strftime_def example_lead_def
  example_store_def example_store_with_def responded_lead_def garbled_lead_def
  undated_lead_def misdated_lead_def fractional_lead_def test_lead_def test_store_def
  cand_def

lemmas mem_sf_defs =
  mem_sf_def mem_get_record_def mem_update_record_def apply_update_def

lemmas detect_defs =
  detect_first_touch_def update_first_touch_def parse_dt_def iso_def
  ttfr_minutes_of_def int_trunc_div_def Let_def

lemma detect_no_existing:
  assumes "get_record sf s lead_id = Inr lead"
      and "\<forall>e. parse_dt lib (First_Response_At__c lead) = Some e
               \<longrightarrow> dt_le e candidate_dt = Some False"
  shows "detect_first_touch lib sf s lead_id candidate_dt user_id source =
         update_first_touch lib sf s lead (parse_dt lib (First_Response_At__c lead))
           lead_id candidate_dt user_id source"
  using assms by (auto simp: detect_first_touch_def Let_def split: option.splits)

lemma parse_dt_malformed:
  "date_parser_parse lib str = None \<Longrightarrow> parse_dt lib (Some str) = None"
  by (simp add: parse_dt_def)

lemma update_first_touch_comparable:
  assumes "parse_dt lib (CreatedDate lead) = Some created_dt"
      and "comparable candidate_dt created_dt"
  shows "update_first_touch lib sf s lead existing_dt lead_id candidate_dt user_id source =
         (case update_record sf s lead_id
                 \<lparr>upd_First_Response_At__c = iso lib candidate_dt,
                  upd_First_Response_User__c = user_id,
                  upd_First_Response_Source__c = source,
                  upd_Time_to_First_Response__c =
                    ttfr_minutes_of (utc_us candidate_dt) (utc_us created_dt)\<rparr> of
            Inl e \<Rightarrow> (Returned (Error e), s)
          | Inr s' \<Rightarrow>
              (Returned (Updated lead_id candidate_dt user_id source
                           (ttfr_minutes_of (utc_us candidate_dt) (utc_us created_dt))
                           (utc_us candidate_dt - utc_us created_dt)
                           (existing_dt \<noteq> None)), s'))"
  using assms
  by (simp add: update_first_touch_def dt_sub_def ttfr_minutes_of_def Let_def split: sum.splits)

lemma update_first_touch_incomparable:
  assumes "parse_dt lib (CreatedDate lead) = Some created_dt"
      and "\<not> comparable candidate_dt created_dt"
  shows "update_first_touch lib sf s lead existing_dt lead_id candidate_dt user_id source
         = (Raised_TypeError, s)"
  using assms by (simp add: update_first_touch_def dt_sub_def)

lemma update_first_touch_undated:
  assumes "parse_dt lib (CreatedDate lead) = None"
  shows "update_first_touch lib sf s lead existing_dt lead_id candidate_dt user_id source
         = (Returned (Error ''Missing CreatedDate''), s)"
  using assms by (simp add: update_first_touch_def)

text \<open>
  The skip of lines 118 to 134, for a stored value and a candidate that Python can compare:
  when the stored value is not later than the candidate, the call returns \<open>Skipped\<close> with
  the store as it was, whatever \<open>update_record\<close> would do.
\<close>

lemma detect_first_touch_skips_when_comparable:
  assumes "get_record sf s lead_id = Inr lead"
      and "parse_dt lib (First_Response_At__c lead) = Some existing"
      and "dt_le existing candidate_dt = Some True"
  shows "detect_first_touch lib sf s lead_id candidate_dt user_id source
           = (Returned (Skipped ''existing_earlier'' existing candidate_dt), s)
       \<and> detect_first_touch lib (sf\<lparr>update_record := u\<rparr>) s lead_id candidate_dt user_id source
           = (Returned (Skipped ''existing_earlier'' existing candidate_dt), s)"
  using assms by (simp add: detect_first_touch_def)

text \<open>
  C2. The claim is that every candidate not earlier than the stored value is skipped. The
  code compares with \<open>existing_dt <= candidate_dt\<close> outside any \<open>try\<close>. On the input of the
  repository's own \<open>test_first_touch_candidate_later\<close> (stored \<open>2025-11-01T10:30:00.000Z\<close>,
  which the parser reads as an aware value; candidate \<open>datetime(2025, 11, 1, 10, 45, 0)\<close>, a
  naive one, fifteen minutes later) the comparison raises \<open>TypeError\<close>; the test asserts
  \<open>skipped\<close>. Nothing is written.
\<close>

theorem detect_first_touch_naive_candidate_raises:
  "parse_dt example_lib (First_Response_At__c test_lead) = Some (aware_utc 1761993000000000)
   \<and> wall (aware_utc 1761993000000000) \<le> wall (naive 1761993900000000)
   \<and> detect_first_touch example_lib mem_sf test_store ''00Q5e000001AbcD''
        (naive 1761993900000000) ''0055e000000User1'' ''Task''
       = (Raised_TypeError, test_store)"
  by (simp add: detect_defs time_defs mem_sf_defs example_defs)

lemma ttfr_minutes_sign:
  "(b \<le> a \<longrightarrow> ttfr_minutes_of a b = (a - b) div 60000000 \<and> 0 \<le> ttfr_minutes_of a b)
   \<and> (a < b \<longrightarrow> ttfr_minutes_of a b = - ((b - a) div 60000000) \<and> ttfr_minutes_of a b \<le> 0)"
  by (simp add: ttfr_minutes_of_def int_trunc_div_def pos_imp_zdiv_nonneg_iff)

text \<open>
  C5, as the code has it. On the update path (no parsable existing value, or the candidate
  strictly earlier):
  \<^item> when \<open>CreatedDate\<close> is null, empty or unparsable the result is the error
    \<open>Missing CreatedDate\<close> and nothing is written, whatever \<open>update_record\<close> would do;
  \<^item> otherwise the value written and returned is the difference in minutes truncated toward
    zero; it is the floor of the quotient and non-negative when the candidate is not before
    \<open>CreatedDate\<close>, and it is zero or negative when the candidate is before \<open>CreatedDate\<close>;
  \<^item> every update that is performed has a candidate and a \<open>CreatedDate\<close> that Python can
    subtract, and records the value above; when they cannot be subtracted (one naive, one
    aware) the call raises \<open>TypeError\<close> and nothing is written.
  The floor of (difference in seconds) / 60 is \<open>div 60000000\<close> on microseconds.
\<close>

theorem detect_first_touch_ttfr_minutes:
  assumes get: "get_record sf s lead_id = Inr lead"
      and earlier: "\<forall>e. parse_dt lib (First_Response_At__c lead) = Some e
                      \<longrightarrow> dt_le e candidate_dt = Some False"
  shows "(parse_dt lib (CreatedDate lead) = None \<longrightarrow>
            detect_first_touch lib sf s lead_id candidate_dt user_id source
              = (Returned (Error ''Missing CreatedDate''), s)
          \<and> detect_first_touch lib (sf\<lparr>update_record := u\<rparr>) s lead_id candidate_dt user_id source
              = (Returned (Error ''Missing CreatedDate''), s))
       \<and> (\<forall>created_dt s'.
            parse_dt lib (CreatedDate lead) = Some created_dt \<and>
            comparable candidate_dt created_dt \<and>
            update_record sf s lead_id
              \<lparr>upd_First_Response_At__c = iso lib candidate_dt,
               upd_First_Response_User__c = user_id,
               upd_First_Response_Source__c = source,
               upd_Time_to_First_Response__c =
                 ttfr_minutes_of (utc_us candidate_dt) (utc_us created_dt)\<rparr> = Inr s'
            \<longrightarrow> detect_first_touch lib sf s lead_id candidate_dt user_id source
                  = (Returned
                       (Updated lead_id candidate_dt user_id source
                          (ttfr_minutes_of (utc_us candidate_dt) (utc_us created_dt))
                          (utc_us candidate_dt - utc_us created_dt)
                          (parse_dt lib (First_Response_At__c lead) \<noteq> None)), s')
                \<and> (utc_us created_dt \<le> utc_us candidate_dt \<longrightarrow>
                      ttfr_minutes_of (utc_us candidate_dt) (utc_us created_dt)
                        = (utc_us candidate_dt - utc_us created_dt) div 60000000
                      \<and> 0 \<le> ttfr_minutes_of (utc_us candidate_dt) (utc_us created_dt))
                \<and> (utc_us candidate_dt < utc_us created_dt \<longrightarrow>
                      ttfr_minutes_of (utc_us candidate_dt) (utc_us created_dt)
                        = - ((utc_us created_dt - utc_us candidate_dt) div 60000000)
                      \<and> ttfr_minutes_of (utc_us candidate_dt) (utc_us created_dt) \<le> 0))
       \<and> (\<forall>lid at usr src m us r s'.
            detect_first_touch lib sf s lead_id candidate_dt user_id source
              = (Returned (Updated lid at usr src m us r), s')
            \<longrightarrow> (\<exists>created_dt.
                   parse_dt lib (CreatedDate lead) = Some created_dt \<and>
                   comparable candidate_dt created_dt \<and>
                   m = ttfr_minutes_of (utc_us candidate_dt) (utc_us created_dt) \<and>
                   (utc_us created_dt \<le> utc_us candidate_dt \<longrightarrow>
                      m = (utc_us candidate_dt - utc_us created_dt) div 60000000 \<and> 0 \<le> m) \<and>
                   (utc_us candidate_dt < utc_us created_dt \<longrightarrow>
                      m = - ((utc_us created_dt - utc_us candidate_dt) div 60000000) \<and> m \<le> 0)))
       \<and> (\<forall>created_dt.
            parse_dt lib (CreatedDate lead) = Some created_dt \<and>
            \<not> comparable candidate_dt created_dt
            \<longrightarrow> detect_first_touch lib sf s lead_id candidate_dt user_id source
                  = (Raised_TypeError, s)
                \<and> detect_first_touch lib (sf\<lparr>update_record := u\<rparr>) s lead_id
                    candidate_dt user_id source
                  = (Raised_TypeError, s))"
proof -
  have get': "get_record (sf\<lparr>update_record := u\<rparr>) s lead_id = Inr lead"
    using get by simp
  note d = detect_no_existing[OF get earlier] detect_no_existing[OF get' earlier]
  have undated: "parse_dt lib (CreatedDate lead) = None \<longrightarrow>
            detect_first_touch lib sf s lead_id candidate_dt user_id source
              = (Returned (Error ''Missing CreatedDate''), s)
          \<and> detect_first_touch lib (sf\<lparr>update_record := u\<rparr>) s lead_id candidate_dt user_id source
              = (Returned (Error ''Missing CreatedDate''), s)"
    by (simp add: d update_first_touch_undated)
  have updated: "\<forall>created_dt s'.
            parse_dt lib (CreatedDate lead) = Some created_dt \<and>
            comparable candidate_dt created_dt \<and>
            update_record sf s lead_id
              \<lparr>upd_First_Response_At__c = iso lib candidate_dt,
               upd_First_Response_User__c = user_id,
               upd_First_Response_Source__c = source,
               upd_Time_to_First_Response__c =
                 ttfr_minutes_of (utc_us candidate_dt) (utc_us created_dt)\<rparr> = Inr s'
            \<longrightarrow> detect_first_touch lib sf s lead_id candidate_dt user_id source
                  = (Returned
                       (Updated lead_id candidate_dt user_id source
                          (ttfr_minutes_of (utc_us candidate_dt) (utc_us created_dt))
                          (utc_us candidate_dt - utc_us created_dt)
                          (parse_dt lib (First_Response_At__c lead) \<noteq> None)), s')
                \<and> (utc_us created_dt \<le> utc_us candidate_dt \<longrightarrow>
                      ttfr_minutes_of (utc_us candidate_dt) (utc_us created_dt)
                        = (utc_us candidate_dt - utc_us created_dt) div 60000000
                      \<and> 0 \<le> ttfr_minutes_of (utc_us candidate_dt) (utc_us created_dt))
                \<and> (utc_us candidate_dt < utc_us created_dt \<longrightarrow>
                      ttfr_minutes_of (utc_us candidate_dt) (utc_us created_dt)
                        = - ((utc_us created_dt - utc_us candidate_dt) div 60000000)
                      \<and> ttfr_minutes_of (utc_us candidate_dt) (utc_us created_dt) \<le> 0)"
    by (simp add: d update_first_touch_comparable)
       (simp add: ttfr_minutes_of_def int_trunc_div_def pos_imp_zdiv_nonneg_iff)
  have performed0: "\<forall>lid at usr src m us r s'.
            detect_first_touch lib sf s lead_id candidate_dt user_id source
              = (Returned (Updated lid at usr src m us r), s')
            \<longrightarrow> (\<exists>created_dt.
                   parse_dt lib (CreatedDate lead) = Some created_dt \<and>
                   comparable candidate_dt created_dt \<and>
                   m = ttfr_minutes_of (utc_us candidate_dt) (utc_us created_dt))"
    by (auto simp: d update_first_touch_def dt_sub_def ttfr_minutes_of_def Let_def
        split: option.splits sum.splits if_splits)
  have performed: "\<forall>lid at usr src m us r s'.
            detect_first_touch lib sf s lead_id candidate_dt user_id source
              = (Returned (Updated lid at usr src m us r), s')
            \<longrightarrow> (\<exists>created_dt.
                   parse_dt lib (CreatedDate lead) = Some created_dt \<and>
                   comparable candidate_dt created_dt \<and>
                   m = ttfr_minutes_of (utc_us candidate_dt) (utc_us created_dt) \<and>
                   (utc_us created_dt \<le> utc_us candidate_dt \<longrightarrow>
                      m = (utc_us candidate_dt - utc_us created_dt) div 60000000 \<and> 0 \<le> m) \<and>
                   (utc_us candidate_dt < utc_us created_dt \<longrightarrow>
                      m = - ((utc_us created_dt - utc_us candidate_dt) div 60000000) \<and> m \<le> 0))"
  proof (intro allI impI)
    fix lid at usr src m us r s'
    assume "detect_first_touch lib sf s lead_id candidate_dt user_id source
              = (Returned (Updated lid at usr src m us r), s')"
    with performed0 obtain created_dt where
      c: "parse_dt lib (CreatedDate lead) = Some created_dt"
         "comparable candidate_dt created_dt"
         "m = ttfr_minutes_of (utc_us candidate_dt) (utc_us created_dt)"
      by blast
    from c ttfr_minutes_sign[of "utc_us created_dt" "utc_us candidate_dt"]
    show "\<exists>created_dt.
                   parse_dt lib (CreatedDate lead) = Some created_dt \<and>
                   comparable candidate_dt created_dt \<and>
                   m = ttfr_minutes_of (utc_us candidate_dt) (utc_us created_dt) \<and>
                   (utc_us created_dt \<le> utc_us candidate_dt \<longrightarrow>
                      m = (utc_us candidate_dt - utc_us created_dt) div 60000000 \<and> 0 \<le> m) \<and>
                   (utc_us candidate_dt < utc_us created_dt \<longrightarrow>
                      m = - ((utc_us created_dt - utc_us candidate_dt) div 60000000) \<and> m \<le> 0)"
      by blast
  qed
  have raised: "\<forall>created_dt.
            parse_dt lib (CreatedDate lead) = Some created_dt \<and>
            \<not> comparable candidate_dt created_dt
            \<longrightarrow> detect_first_touch lib sf s lead_id candidate_dt user_id source
                  = (Raised_TypeError, s)
                \<and> detect_first_touch lib (sf\<lparr>update_record := u\<rparr>) s lead_id
                    candidate_dt user_id source
                  = (Raised_TypeError, s)"
    by (simp add: d update_first_touch_incomparable)
  from undated updated performed raised show ?thesis by blast
qed

text \<open>
  Two instances: a lead created at 10:00:00 and a candidate at 10:25:00 give 25 minutes; a
  lead without \<open>CreatedDate\<close> gives the error and an untouched store.
\<close>

theorem detect_first_touch_ttfr_minutes_witness:
  "get_record mem_sf (example_store example_lead) ''00Q1'' = Inr example_lead
   \<and> parse_dt example_lib (CreatedDate example_lead) = Some (aware_utc 1736935200000000)
   \<and> comparable (aware_utc 1736936700000000) (aware_utc 1736935200000000)
   \<and> fst (detect_first_touch example_lib mem_sf (example_store example_lead) ''00Q1''
            (aware_utc 1736936700000000) ''U2'' ''EmailMessage'')
       = Returned (Updated ''00Q1'' (aware_utc 1736936700000000) ''U2'' ''EmailMessage''
                     25 1500000000 False)
   \<and> (1736936700000000 - 1736935200000000) div 60000000 = (25::int)
   \<and> get_record mem_sf (example_store undated_lead) ''00Q1'' = Inr undated_lead
   \<and> parse_dt example_lib (CreatedDate undated_lead) = None
   \<and> detect_first_touch example_lib mem_sf (example_store undated_lead) ''00Q1''
        (aware_utc 1736936700000000) ''U2'' ''EmailMessage''
       = (Returned (Error ''Missing CreatedDate''), example_store undated_lead)"
proof -
  let ?c = "aware_utc 1736936700000000"
  let ?cr = "aware_utc 1736935200000000"
  have g1: "get_record mem_sf (example_store example_lead) ''00Q1'' = Inr example_lead"
    by (simp add: mem_sf_defs example_defs)
  have e1: "\<forall>e. parse_dt example_lib (First_Response_At__c example_lead) = Some e
              \<longrightarrow> dt_le e ?c = Some False"
    by (simp add: parse_dt_def example_defs)
  have c1: "parse_dt example_lib (CreatedDate example_lead) = Some ?cr"
    by (simp add: parse_dt_def example_defs)
  have cmp: "comparable ?c ?cr"
    by (simp add: time_defs)
  have m1: "ttfr_minutes_of (utc_us ?c) (utc_us ?cr) = 25"
    by (simp add: ttfr_minutes_of_def int_trunc_div_def time_defs)
  have d1: "utc_us ?c - utc_us ?cr = 1500000000"
    by (simp add: time_defs)
  have u1: "\<exists>s'. update_record mem_sf (example_store example_lead) ''00Q1''
              \<lparr>upd_First_Response_At__c = iso example_lib ?c,
               upd_First_Response_User__c = ''U2'',
               upd_First_Response_Source__c = ''EmailMessage'',
               upd_Time_to_First_Response__c =
                 ttfr_minutes_of (utc_us ?c) (utc_us ?cr)\<rparr> = Inr s'"
    by (simp add: mem_sf_defs example_defs)
  have g2: "get_record mem_sf (example_store undated_lead) ''00Q1'' = Inr undated_lead"
    by (simp add: mem_sf_defs example_defs)
  have e2: "\<forall>e. parse_dt example_lib (First_Response_At__c undated_lead) = Some e
              \<longrightarrow> dt_le e ?c = Some False"
    by (simp add: parse_dt_def example_defs)
  have c2: "parse_dt example_lib (CreatedDate undated_lead) = None"
    by (simp add: parse_dt_def example_defs)
  from u1 obtain s' where u1': "update_record mem_sf (example_store example_lead) ''00Q1''
              \<lparr>upd_First_Response_At__c = iso example_lib ?c,
               upd_First_Response_User__c = ''U2'',
               upd_First_Response_Source__c = ''EmailMessage'',
               upd_Time_to_First_Response__c =
                 ttfr_minutes_of (utc_us ?c) (utc_us ?cr)\<rparr> = Inr s'" ..
  from detect_first_touch_ttfr_minutes
         [OF g1 e1, where user_id = "''U2''" and source = "''EmailMessage''"]
       c1 cmp u1'
  have "detect_first_touch example_lib mem_sf (example_store example_lead) ''00Q1'' ?c
          ''U2'' ''EmailMessage''
        = (Returned
             (Updated ''00Q1'' ?c ''U2'' ''EmailMessage''
                (ttfr_minutes_of (utc_us ?c) (utc_us ?cr)) (utc_us ?c - utc_us ?cr)
                (parse_dt example_lib (First_Response_At__c example_lead) \<noteq> None)), s')"
    by blast
  then have r1: "fst (detect_first_touch example_lib mem_sf (example_store example_lead) ''00Q1''
            ?c ''U2'' ''EmailMessage'')
       = Returned (Updated ''00Q1'' ?c ''U2'' ''EmailMessage'' 25 1500000000 False)"
    unfolding m1 d1 by (simp add: parse_dt_def example_defs)
  from detect_first_touch_ttfr_minutes
         [OF g2 e2, where user_id = "''U2''" and source = "''EmailMessage''"] c2
  have r2: "detect_first_touch example_lib mem_sf (example_store undated_lead) ''00Q1''
        ?c ''U2'' ''EmailMessage''
       = (Returned (Error ''Missing CreatedDate''), example_store undated_lead)"
    by blast
  from g1 c1 cmp r1 g2 c2 r2 show ?thesis by simp
qed

text \<open>
  C5 as stated fails for a candidate before \<open>CreatedDate\<close>: the lead is created at 10:00:00,
  the candidate is at 09:58:30, ninety seconds earlier. The value written is \<open>-1\<close>; it is
  negative, and the floor of \<open>-1.5\<close> is \<open>-2\<close>.
\<close>

theorem detect_first_touch_negative_ttfr:
  "fst (detect_first_touch example_lib mem_sf (example_store example_lead) ''00Q1''
          (aware_utc 1736935110000000) ''U3'' ''Task'')
     = Returned (Updated ''00Q1'' (aware_utc 1736935110000000) ''U3'' ''Task''
                   (- 1) (- 90000000) False)
   \<and> map_option Time_to_First_Response__c
        (records (snd (detect_first_touch example_lib mem_sf (example_store example_lead)
           ''00Q1'' (aware_utc 1736935110000000) ''U3'' ''Task'')) ''00Q1'')
     = Some (Some (- 1))
   \<and> (1736935110000000 - 1736935200000000) div 60000000 = (- 2 :: int)
   \<and> \<not> (0::int) \<le> - 1"
  by (simp add: detect_defs time_defs mem_sf_defs example_defs)

text \<open>
  C9, as the code has it. \<open>parse_dt\<close> turns a text that the parser rejects into \<open>None\<close>.
  \<^item> A malformed \<open>First_Response_At__c\<close> is therefore treated as an absent one: the
    comparison with the existing value is not made and the call goes on to the update.
    With a \<open>CreatedDate\<close> that parses (and can be subtracted from the candidate) the
    candidate is written and reported as \<open>Updated\<close> with \<open>replaced_existing = False\<close>, or the
    error of a failing \<open>update_record\<close> is returned.
  \<^item> A null, empty or malformed \<open>CreatedDate\<close> gives the failed result
    \<open>Missing CreatedDate\<close> only when the call reaches the update: when the stored first
    response does not parse, or when it parses and is later than the candidate. When the
    stored first response parses and is not later than the candidate, the call returns
    \<open>Skipped\<close> before \<open>CreatedDate\<close> is read. In no case is anything written.
  \<^item> Where a naive and an aware value meet in the comparison or in the subtraction, the
    call raises \<open>TypeError\<close> and nothing is written.
\<close>

theorem detect_first_touch_malformed_timestamps:
  assumes get: "get_record sf s lead_id = Inr lead"
  shows "(\<forall>str. First_Response_At__c lead = Some str \<and> date_parser_parse lib str = None \<longrightarrow>
            (parse_dt lib (CreatedDate lead) = None \<longrightarrow>
               detect_first_touch lib sf s lead_id candidate_dt user_id source
                 = (Returned (Error ''Missing CreatedDate''), s))
          \<and> (\<forall>created_dt.
                parse_dt lib (CreatedDate lead) = Some created_dt \<and>
                comparable candidate_dt created_dt \<longrightarrow>
                detect_first_touch lib sf s lead_id candidate_dt user_id source
                  = (case update_record sf s lead_id
                            \<lparr>upd_First_Response_At__c = iso lib candidate_dt,
                             upd_First_Response_User__c = user_id,
                             upd_First_Response_Source__c = source,
                             upd_Time_to_First_Response__c =
                               ttfr_minutes_of (utc_us candidate_dt) (utc_us created_dt)\<rparr> of
                       Inl e \<Rightarrow> (Returned (Error e), s)
                     | Inr s' \<Rightarrow>
                         (Returned
                            (Updated lead_id candidate_dt user_id source
                               (ttfr_minutes_of (utc_us candidate_dt) (utc_us created_dt))
                               (utc_us candidate_dt - utc_us created_dt) False), s')))
          \<and> (\<forall>created_dt.
                parse_dt lib (CreatedDate lead) = Some created_dt \<and>
                \<not> comparable candidate_dt created_dt \<longrightarrow>
                detect_first_touch lib sf s lead_id candidate_dt user_id source
                  = (Raised_TypeError, s)))
       \<and> (parse_dt lib (CreatedDate lead) = None \<longrightarrow>
            (parse_dt lib (First_Response_At__c lead) = None \<longrightarrow>
               detect_first_touch lib sf s lead_id candidate_dt user_id source
                 = (Returned (Error ''Missing CreatedDate''), s))
          \<and> (\<forall>existing.
                parse_dt lib (First_Response_At__c lead) = Some existing \<and>
                dt_le existing candidate_dt = Some False \<longrightarrow>
                detect_first_touch lib sf s lead_id candidate_dt user_id source
                  = (Returned (Error ''Missing CreatedDate''), s))
          \<and> (\<forall>existing.
                parse_dt lib (First_Response_At__c lead) = Some existing \<and>
                dt_le existing candidate_dt = Some True \<longrightarrow>
                detect_first_touch lib sf s lead_id candidate_dt user_id source
                  = (Returned (Skipped ''existing_earlier'' existing candidate_dt), s))
          \<and> (\<forall>existing.
                parse_dt lib (First_Response_At__c lead) = Some existing \<and>
                dt_le existing candidate_dt = None \<longrightarrow>
                detect_first_touch lib sf s lead_id candidate_dt user_id source
                  = (Raised_TypeError, s))
          \<and> snd (detect_first_touch lib (sf\<lparr>update_record := u\<rparr>) s lead_id
                    candidate_dt user_id source) = s)"
proof -
  have malformed: "detect_first_touch lib sf s lead_id candidate_dt user_id source
                   = update_first_touch lib sf s lead None lead_id candidate_dt user_id source"
    if "First_Response_At__c lead = Some str" and "date_parser_parse lib str = None" for str
  proof -
    have none: "parse_dt lib (First_Response_At__c lead) = None"
      using that by (simp add: parse_dt_malformed)
    then have "\<forall>e. parse_dt lib (First_Response_At__c lead) = Some e
                 \<longrightarrow> dt_le e candidate_dt = Some False"
      by simp
    from detect_no_existing[OF get this] none show ?thesis by simp
  qed
  have first: "\<forall>str. First_Response_At__c lead = Some str \<and> date_parser_parse lib str = None \<longrightarrow>
            (parse_dt lib (CreatedDate lead) = None \<longrightarrow>
               detect_first_touch lib sf s lead_id candidate_dt user_id source
                 = (Returned (Error ''Missing CreatedDate''), s))
          \<and> (\<forall>created_dt.
                parse_dt lib (CreatedDate lead) = Some created_dt \<and>
                comparable candidate_dt created_dt \<longrightarrow>
                detect_first_touch lib sf s lead_id candidate_dt user_id source
                  = (case update_record sf s lead_id
                            \<lparr>upd_First_Response_At__c = iso lib candidate_dt,
                             upd_First_Response_User__c = user_id,
                             upd_First_Response_Source__c = source,
                             upd_Time_to_First_Response__c =
                               ttfr_minutes_of (utc_us candidate_dt) (utc_us created_dt)\<rparr> of
                       Inl e \<Rightarrow> (Returned (Error e), s)
                     | Inr s' \<Rightarrow>
                         (Returned
                            (Updated lead_id candidate_dt user_id source
                               (ttfr_minutes_of (utc_us candidate_dt) (utc_us created_dt))
                               (utc_us candidate_dt - utc_us created_dt) False), s')))
          \<and> (\<forall>created_dt.
                parse_dt lib (CreatedDate lead) = Some created_dt \<and>
                \<not> comparable candidate_dt created_dt \<longrightarrow>
                detect_first_touch lib sf s lead_id candidate_dt user_id source
                  = (Raised_TypeError, s))"
    by (auto simp: malformed update_first_touch_undated update_first_touch_incomparable
          update_first_touch_comparable split: sum.splits)
  have get': "get_record (sf\<lparr>update_record := u\<rparr>) s lead_id = Inr lead"
    using get by simp
  have second: "parse_dt lib (CreatedDate lead) = None \<longrightarrow>
            (parse_dt lib (First_Response_At__c lead) = None \<longrightarrow>
               detect_first_touch lib sf s lead_id candidate_dt user_id source
                 = (Returned (Error ''Missing CreatedDate''), s))
          \<and> (\<forall>existing.
                parse_dt lib (First_Response_At__c lead) = Some existing \<and>
                dt_le existing candidate_dt = Some False \<longrightarrow>
                detect_first_touch lib sf s lead_id candidate_dt user_id source
                  = (Returned (Error ''Missing CreatedDate''), s))
          \<and> (\<forall>existing.
                parse_dt lib (First_Response_At__c lead) = Some existing \<and>
                dt_le existing candidate_dt = Some True \<longrightarrow>
                detect_first_touch lib sf s lead_id candidate_dt user_id source
                  = (Returned (Skipped ''existing_earlier'' existing candidate_dt), s))
          \<and> (\<forall>existing.
                parse_dt lib (First_Response_At__c lead) = Some existing \<and>
                dt_le existing candidate_dt = None \<longrightarrow>
                detect_first_touch lib sf s lead_id candidate_dt user_id source
                  = (Raised_TypeError, s))
          \<and> snd (detect_first_touch lib (sf\<lparr>update_record := u\<rparr>) s lead_id
                    candidate_dt user_id source) = s"
    using get get'
    by (auto simp: detect_first_touch_def update_first_touch_undated Let_def
        split: option.splits)
  from first second show ?thesis by blast
qed

text \<open>
  Three instances on a lead created at 10:00:00. The stored first response is the text
  \<open>invalid\<close> and the candidate is at 10:30:00: updated, 30 minutes, nothing replaced. The
  \<open>CreatedDate\<close> is the text \<open>invalid\<close> and the stored first response is 10:20:00: a candidate
  at 10:25:00 is skipped, a candidate at 09:58:30 gives \<open>Missing CreatedDate\<close>.
\<close>

theorem detect_first_touch_malformed_timestamps_witness:
  "First_Response_At__c garbled_lead = Some ''invalid''
   \<and> date_parser_parse example_lib ''invalid'' = None
   \<and> parse_dt example_lib (CreatedDate garbled_lead) = Some (aware_utc 1736935200000000)
   \<and> fst (detect_first_touch example_lib mem_sf (example_store garbled_lead) ''00Q1''
            (aware_utc 1736937000000000) ''U1'' ''Task'')
       = Returned (Updated ''00Q1'' (aware_utc 1736937000000000) ''U1'' ''Task''
                     30 1800000000 False)
   \<and> parse_dt example_lib (CreatedDate misdated_lead) = None
   \<and> parse_dt example_lib (First_Response_At__c misdated_lead)
       = Some (aware_utc 1736936400000000)
   \<and> detect_first_touch example_lib mem_sf (example_store misdated_lead) ''00Q1''
        (aware_utc 1736936700000000) ''U2'' ''EmailMessage''
       = (Returned (Skipped ''existing_earlier'' (aware_utc 1736936400000000)
                      (aware_utc 1736936700000000)), example_store misdated_lead)
   \<and> detect_first_touch example_lib mem_sf (example_store misdated_lead) ''00Q1''
        (aware_utc 1736935110000000) ''U3'' ''Task''
       = (Returned (Error ''Missing CreatedDate''), example_store misdated_lead)"
proof -
  let ?c30 = "aware_utc 1736937000000000"
  let ?c25 = "aware_utc 1736936700000000"
  let ?c20 = "aware_utc 1736936400000000"
  let ?c58 = "aware_utc 1736935110000000"
  let ?cr = "aware_utc 1736935200000000"
  have g: "get_record mem_sf (example_store garbled_lead) ''00Q1'' = Inr garbled_lead"
    by (simp add: mem_sf_defs example_defs)
  have st: "First_Response_At__c garbled_lead = Some ''invalid''"
    by (simp add: example_defs)
  have bad: "date_parser_parse example_lib ''invalid'' = None"
    by (simp add: example_defs)
  have cr: "parse_dt example_lib (CreatedDate garbled_lead) = Some ?cr"
    by (simp add: parse_dt_def example_defs)
  have cmp: "comparable ?c30 ?cr"
    by (simp add: time_defs)
  have m: "ttfr_minutes_of (utc_us ?c30) (utc_us ?cr) = 30"
    by (simp add: ttfr_minutes_of_def int_trunc_div_def time_defs)
  have d: "utc_us ?c30 - utc_us ?cr = 1800000000"
    by (simp add: time_defs)
  from detect_first_touch_malformed_timestamps
         [OF g, where lib = example_lib and candidate_dt = ?c30
            and user_id = "''U1''" and source = "''Task''"] st bad cr cmp
  have "detect_first_touch example_lib mem_sf (example_store garbled_lead) ''00Q1'' ?c30
          ''U1'' ''Task''
        = (case update_record mem_sf (example_store garbled_lead) ''00Q1''
                  \<lparr>upd_First_Response_At__c = iso example_lib ?c30,
                   upd_First_Response_User__c = ''U1'',
                   upd_First_Response_Source__c = ''Task'',
                   upd_Time_to_First_Response__c =
                     ttfr_minutes_of (utc_us ?c30) (utc_us ?cr)\<rparr> of
             Inl e \<Rightarrow> (Returned (Error e), example_store garbled_lead)
           | Inr s' \<Rightarrow>
               (Returned
                  (Updated ''00Q1'' ?c30 ''U1'' ''Task''
                     (ttfr_minutes_of (utc_us ?c30) (utc_us ?cr))
                     (utc_us ?c30 - utc_us ?cr) False), s'))"
    by blast
  then have r1: "fst (detect_first_touch example_lib mem_sf (example_store garbled_lead) ''00Q1''
            ?c30 ''U1'' ''Task'')
       = Returned (Updated ''00Q1'' ?c30 ''U1'' ''Task'' 30 1800000000 False)"
    unfolding m d by (simp add: mem_sf_defs example_defs)
  have g2: "get_record mem_sf (example_store misdated_lead) ''00Q1'' = Inr misdated_lead"
    by (simp add: mem_sf_defs example_defs)
  have cr2: "parse_dt example_lib (CreatedDate misdated_lead) = None"
    by (simp add: parse_dt_def example_defs)
  have ex2: "parse_dt example_lib (First_Response_At__c misdated_lead) = Some ?c20"
    by (simp add: parse_dt_def example_defs)
  have le25: "dt_le ?c20 ?c25 = Some True"
    by (simp add: time_defs)
  have le58: "dt_le ?c20 ?c58 = Some False"
    by (simp add: time_defs)
  from detect_first_touch_malformed_timestamps
         [OF g2, where lib = example_lib and candidate_dt = ?c25
            and user_id = "''U2''" and source = "''EmailMessage''"] cr2 ex2 le25
  have r2: "detect_first_touch example_lib mem_sf (example_store misdated_lead) ''00Q1''
        ?c25 ''U2'' ''EmailMessage''
       = (Returned (Skipped ''existing_earlier'' ?c20 ?c25), example_store misdated_lead)"
    by blast
  from detect_first_touch_malformed_timestamps
         [OF g2, where lib = example_lib and candidate_dt = ?c58
            and user_id = "''U3''" and source = "''Task''"] cr2 ex2 le58
  have r3: "detect_first_touch example_lib mem_sf (example_store misdated_lead) ''00Q1''
        ?c58 ''U3'' ''Task''
       = (Returned (Error ''Missing CreatedDate''), example_store misdated_lead)"
    by blast
  from st bad cr r1 cr2 ex2 r2 r3 show ?thesis by simp
qed

text \<open>
  C9 as stated fails: with the stored text \<open>invalid\<close> the call does not report a failure;
  it reports an update and the stored value is overwritten by the candidate.
\<close>

theorem detect_first_touch_overwrites_malformed_existing:
  "First_Response_At__c garbled_lead = Some ''invalid''
   \<and> parse_dt example_lib (Some ''invalid'') = None
   \<and> fst (detect_first_touch example_lib mem_sf (example_store garbled_lead)
          ''00Q1'' (aware_utc 1736937000000000) ''U1'' ''Task'')
       = Returned (Updated ''00Q1'' (aware_utc 1736937000000000) ''U1'' ''Task''
                     30 1800000000 False)
   \<and> map_option First_Response_At__c
        (records (snd (detect_first_touch example_lib mem_sf (example_store garbled_lead)
          ''00Q1'' (aware_utc 1736937000000000) ''U1'' ''Task'')) ''00Q1'')
       = Some (Some ''2025-01-15T10:30:00.000Z'')"
  by (simp add: detect_defs time_defs mem_sf_defs example_defs)

text \<open>
  C6. When both queries return a first row whose date parses, and the two dates can be
  compared (both come from the parser on Salesforce texts), the candidate passed to
  \<open>detect_first_touch\<close> is the Task one if its timestamp is strictly smaller, the
  EmailMessage one if that is strictly smaller, and the Task one on a tie; the result is
  what \<open>detect_first_touch\<close> gives. When neither query yields a parsable first row the
  result is \<open>None\<close> and the store is untouched, whatever \<open>update_record\<close> would do. Two dates
  of which one is naive and one aware raise \<open>TypeError\<close> in the comparison.
\<close>

theorem find_and_record_first_touch_picks_earliest:
  assumes qt: "query_task sf s lead_id = Inr tasks"
      and qe: "query_email sf s lead_id = Inr emails"
  shows "(\<forall>t ts m ms task_dt email_dt.
            tasks = t # ts \<and> emails = m # ms \<and>
            parse_dt lib (Task_CreatedDate t) = Some task_dt \<and>
            parse_dt lib (Email_MessageDate m) = Some email_dt \<longrightarrow>
            (comparable task_dt email_dt \<and> utc_us task_dt < utc_us email_dt \<longrightarrow>
               find_and_record_first_touch lib sf s lead_id =
               apfst (map_outcome Some)
                 (detect_first_touch lib sf s lead_id task_dt (Task_OwnerId t) ''Task''))
          \<and> (comparable task_dt email_dt \<and> utc_us email_dt < utc_us task_dt \<longrightarrow>
               find_and_record_first_touch lib sf s lead_id =
               apfst (map_outcome Some)
                 (detect_first_touch lib sf s lead_id email_dt
                    (Email_CreatedById m) ''EmailMessage''))
          \<and> (comparable task_dt email_dt \<and> utc_us task_dt = utc_us email_dt \<longrightarrow>
               find_and_record_first_touch lib sf s lead_id =
               apfst (map_outcome Some)
                 (detect_first_touch lib sf s lead_id task_dt (Task_OwnerId t) ''Task''))
          \<and> (\<not> comparable task_dt email_dt \<longrightarrow>
               find_and_record_first_touch lib sf s lead_id = (Raised_TypeError, s)))
       \<and> ((case tasks of [] \<Rightarrow> None | t # _ \<Rightarrow> parse_dt lib (Task_CreatedDate t)) = None \<and>
          (case emails of [] \<Rightarrow> None | m # _ \<Rightarrow> parse_dt lib (Email_MessageDate m)) = None \<longrightarrow>
            find_and_record_first_touch lib sf s lead_id = (Returned None, s)
          \<and> find_and_record_first_touch lib (sf\<lparr>update_record := u\<rparr>) s lead_id
              = (Returned None, s))"
  using qt qe
  by (auto simp: find_and_record_first_touch_def dt_le_def Let_def
      split: list.splits option.splits)

text \<open>
  Three instances on a lead created at 10:00:00: a Task at 10:30:00 and an email at 10:25:00
  (the email is recorded, 25 minutes); both at 10:25:00 (the Task is recorded); no rows at
  all (\<open>None\<close>, store untouched).
\<close>

theorem find_and_record_first_touch_picks_earliest_witness:
  "fst (find_and_record_first_touch example_lib mem_sf
          (example_store_with example_lead
             [\<lparr>Task_CreatedDate = Some ''2025-01-15T10:30:00.000Z'', Task_OwnerId = ''U1''\<rparr>]
             [\<lparr>Email_MessageDate = Some ''2025-01-15T10:25:00.000Z'', Email_CreatedById = ''U2''\<rparr>])
          ''00Q1'')
     = Returned (Some (Updated ''00Q1'' (aware_utc 1736936700000000) ''U2'' ''EmailMessage''
                         25 1500000000 False))
   \<and> fst (find_and_record_first_touch example_lib mem_sf
          (example_store_with example_lead
             [\<lparr>Task_CreatedDate = Some ''2025-01-15T10:25:00.000Z'', Task_OwnerId = ''U1''\<rparr>]
             [\<lparr>Email_MessageDate = Some ''2025-01-15T10:25:00.000Z'', Email_CreatedById = ''U2''\<rparr>])
          ''00Q1'')
     = Returned (Some (Updated ''00Q1'' (aware_utc 1736936700000000) ''U1'' ''Task''
                         25 1500000000 False))
   \<and> find_and_record_first_touch example_lib mem_sf (example_store_with example_lead [] []) ''00Q1''
     = (Returned None, example_store_with example_lead [] [])"
proof -
  let ?t30 = "\<lparr>Task_CreatedDate = Some ''2025-01-15T10:30:00.000Z'', Task_OwnerId = ''U1''\<rparr>"
  let ?t25 = "\<lparr>Task_CreatedDate = Some ''2025-01-15T10:25:00.000Z'', Task_OwnerId = ''U1''\<rparr>"
  let ?m25 = "\<lparr>Email_MessageDate = Some ''2025-01-15T10:25:00.000Z'', Email_CreatedById = ''U2''\<rparr>"
  let ?c30 = "aware_utc 1736937000000000"
  let ?c25 = "aware_utc 1736936700000000"
  have pt30: "parse_dt example_lib (Task_CreatedDate ?t30) = Some ?c30"
    by (simp add: parse_dt_def example_defs)
  have pt25: "parse_dt example_lib (Task_CreatedDate ?t25) = Some ?c25"
    by (simp add: parse_dt_def example_defs)
  have pm25: "parse_dt example_lib (Email_MessageDate ?m25) = Some ?c25"
    by (simp add: parse_dt_def example_defs)
  have later: "comparable ?c30 ?c25 \<and> utc_us ?c25 < utc_us ?c30"
    by (simp add: time_defs)
  have tie: "comparable ?c25 ?c25 \<and> utc_us ?c25 = utc_us ?c25"
    by (simp add: time_defs)
  have d_email: "fst (detect_first_touch example_lib mem_sf
                        (example_store_with example_lead [?t30] [?m25]) ''00Q1''
                        ?c25 ''U2'' ''EmailMessage'')
                 = Returned (Updated ''00Q1'' ?c25 ''U2'' ''EmailMessage'' 25 1500000000 False)"
    by (simp add: detect_defs time_defs mem_sf_defs example_defs)
  have d_task: "fst (detect_first_touch example_lib mem_sf
                       (example_store_with example_lead [?t25] [?m25]) ''00Q1''
                       ?c25 ''U1'' ''Task'')
                 = Returned (Updated ''00Q1'' ?c25 ''U1'' ''Task'' 25 1500000000 False)"
    by (simp add: detect_defs time_defs mem_sf_defs example_defs)
  have qt1: "query_task mem_sf (example_store_with example_lead [?t30] [?m25]) ''00Q1''
               = Inr [?t30]"
    by (simp add: mem_sf_def example_store_with_def)
  have qe1: "query_email mem_sf (example_store_with example_lead [?t30] [?m25]) ''00Q1''
               = Inr [?m25]"
    by (simp add: mem_sf_def example_store_with_def)
  have qt2: "query_task mem_sf (example_store_with example_lead [?t25] [?m25]) ''00Q1''
               = Inr [?t25]"
    by (simp add: mem_sf_def example_store_with_def)
  have qe2: "query_email mem_sf (example_store_with example_lead [?t25] [?m25]) ''00Q1''
               = Inr [?m25]"
    by (simp add: mem_sf_def example_store_with_def)
  have qt3: "query_task mem_sf (example_store_with example_lead [] []) ''00Q1'' = Inr []"
    by (simp add: mem_sf_def example_store_with_def)
  have qe3: "query_email mem_sf (example_store_with example_lead [] []) ''00Q1'' = Inr []"
    by (simp add: mem_sf_def example_store_with_def)
  from find_and_record_first_touch_picks_earliest[OF qt1 qe1, where lib = example_lib]
       pt30 pm25 later
  have "find_and_record_first_touch example_lib mem_sf
          (example_store_with example_lead [?t30] [?m25]) ''00Q1''
        = apfst (map_outcome Some)
            (detect_first_touch example_lib mem_sf
               (example_store_with example_lead [?t30] [?m25]) ''00Q1''
               ?c25 (Email_CreatedById ?m25) ''EmailMessage'')"
    by blast
  then have a: "fst (find_and_record_first_touch example_lib mem_sf
                  (example_store_with example_lead [?t30] [?m25]) ''00Q1'')
           = Returned (Some (Updated ''00Q1'' ?c25 ''U2'' ''EmailMessage'' 25 1500000000 False))"
    using d_email by simp
  from find_and_record_first_touch_picks_earliest[OF qt2 qe2, where lib = example_lib]
       pt25 pm25 tie
  have "find_and_record_first_touch example_lib mem_sf
          (example_store_with example_lead [?t25] [?m25]) ''00Q1''
        = apfst (map_outcome Some)
            (detect_first_touch example_lib mem_sf
               (example_store_with example_lead [?t25] [?m25]) ''00Q1''
               ?c25 (Task_OwnerId ?t25) ''Task'')"
    by blast
  then have b: "fst (find_and_record_first_touch example_lib mem_sf
                  (example_store_with example_lead [?t25] [?m25]) ''00Q1'')
           = Returned (Some (Updated ''00Q1'' ?c25 ''U1'' ''Task'' 25 1500000000 False))"
    using d_task by simp
  from find_and_record_first_touch_picks_earliest[OF qt3 qe3, where lib = example_lib]
  have c: "find_and_record_first_touch example_lib mem_sf
             (example_store_with example_lead [] []) ''00Q1''
           = (Returned None, example_store_with example_lead [] [])"
    by simp
  from a b c show ?thesis by simp
qed

subsection \<open>Convergence under reordering and redelivery\<close>

lemma earliest_le: "cand_us (earliest_candidate w cs) \<le> cand_us w"
  by (induction cs arbitrary: w) (auto intro: order_trans less_imp_le)

lemma earliest_in: "earliest_candidate w cs \<in> set (w # cs)"
  by (induction cs arbitrary: w) auto

lemma earliest_lower: "c \<in> set cs \<Longrightarrow> cand_us (earliest_candidate w cs) \<le> cand_us c"
proof (induction cs arbitrary: w)
  case Nil
  then show ?case by simp
next
  case (Cons a cs)
  show ?case
  proof (cases "c = a")
    case True
    have "cand_us (earliest_candidate (if cand_us a < cand_us w then a else w) cs)
          \<le> cand_us (if cand_us a < cand_us w then a else w)"
      by (rule earliest_le)
    also have "\<dots> \<le> cand_us a" by simp
    finally show ?thesis using True by simp
  next
    case False
    then have "c \<in> set cs" using Cons.prems by simp
    from Cons.IH[OF this] show ?thesis by simp
  qed
qed

lemma earliest_Min:
  "cand_us (earliest_candidate w cs) = Min (cand_us ` set (w # cs))"
proof (rule sym, rule Min_eqI)
  show "finite (cand_us ` set (w # cs))" by simp
next
  fix y assume "y \<in> cand_us ` set (w # cs)"
  then obtain c where c: "c \<in> set (w # cs)" "y = cand_us c" by auto
  show "cand_us (earliest_candidate w cs) \<le> y"
  proof (cases "c = w")
    case True
    then show ?thesis using c earliest_le[of w cs] by simp
  next
    case False
    then have "c \<in> set cs" using c by simp
    then show ?thesis using c earliest_lower by simp
  qed
next
  show "cand_us (earliest_candidate w cs) \<in> cand_us ` set (w # cs)"
    using earliest_in[of w cs] by (rule imageI)
qed

lemma earliest_find:
  "find (\<lambda>c. cand_us c = cand_us (earliest_candidate w cs)) (w # cs)
     = Some (earliest_candidate w cs)"
proof (induction cs arbitrary: w)
  case Nil
  then show ?case by simp
next
  case (Cons c cs)
  show ?case
  proof (cases "cand_us c < cand_us w")
    case True
    have "cand_us (earliest_candidate c cs) \<le> cand_us c"
      by (rule earliest_le)
    then have ne: "cand_us w \<noteq> cand_us (earliest_candidate c cs)"
      using True by linarith
    have e: "earliest_candidate w (c # cs) = earliest_candidate c cs"
      using True by simp
    show ?thesis
      unfolding e using ne Cons[of c] by (simp del: earliest_candidate.simps)
  next
    case False
    have e: "earliest_candidate w (c # cs) = earliest_candidate w cs"
      using False by simp
    have le: "cand_us (earliest_candidate w cs) \<le> cand_us w"
      by (rule earliest_le)
    show ?thesis
    proof (cases "cand_us w = cand_us (earliest_candidate w cs)")
      case True
      then show ?thesis unfolding e using Cons[of w] by (simp del: earliest_candidate.simps)
    next
      case False
      then have "cand_us c \<noteq> cand_us (earliest_candidate w cs)"
        using le \<open>\<not> cand_us c < cand_us w\<close> by linarith
      then show ?thesis unfolding e using False Cons[of w] by (simp del: earliest_candidate.simps)
    qed
  qed
qed

lemma utc_reading:
  "utcoffset dt = Some 0 \<Longrightarrow> utc_us dt = wall dt"
  by (simp add: utc_us_def)

lemma mem_detect_records:
  assumes "records s lead_id = Some l"
      and "parse_dt lib (CreatedDate l) = Some created_dt"
      and "comparable (cand_dt c) created_dt"
      and "\<forall>e. parse_dt lib (First_Response_At__c l) = Some e \<longrightarrow> comparable e (cand_dt c)"
  shows "records (snd (detect_first_touch lib mem_sf s lead_id
                         (cand_dt c) (cand_user c) (cand_source c))) lead_id
         = Some (case parse_dt lib (First_Response_At__c l) of
                   None \<Rightarrow> written lib l created_dt c
                 | Some e \<Rightarrow>
                     if utc_us e \<le> cand_us c then l else written lib l created_dt c)"
  using assms
  by (simp add: detect_first_touch_def update_first_touch_def mem_sf_def mem_get_record_def
        mem_update_record_def Let_def written_def apply_update_def dt_le_def dt_sub_def
        ttfr_minutes_of_def cand_us_def split: option.splits)

lemma written_written: "written lib (written lib l cr w) cr c = written lib l cr c"
  by (simp add: written_def)

lemma comparable_utc:
  "utcoffset a = Some 0 \<Longrightarrow> utcoffset b \<noteq> None \<Longrightarrow> comparable a b \<and> comparable b a"
  by (simp add: comparable_def)

lemma apply_from_written:
  assumes "records s lead_id = Some (written lib l created_dt w)"
      and "parse_dt lib (CreatedDate l) = Some created_dt"
      and "utcoffset created_dt \<noteq> None"
      and "\<forall>c \<in> set (w # cs). utcoffset (cand_dt c) = Some 0"
      and "\<forall>c \<in> set (w # cs). parse_dt lib (Some (iso lib (cand_dt c))) = Some (cand_dt c)"
  shows "records (apply_candidates lib mem_sf lead_id cs s) lead_id
         = Some (written lib l created_dt (earliest_candidate w cs))"
  using assms
proof (induction cs arbitrary: s w)
  case Nil
  then show ?case by simp
next
  case (Cons c cs)
  let ?s' = "snd (detect_first_touch lib mem_sf s lead_id
                    (cand_dt c) (cand_user c) (cand_source c))"
  let ?w' = "if cand_us c < cand_us w then c else w"
  have cr: "parse_dt lib (CreatedDate (written lib l created_dt w)) = Some created_dt"
    using Cons.prems(2) by (simp add: written_def)
  have fra: "parse_dt lib (First_Response_At__c (written lib l created_dt w)) = Some (cand_dt w)"
    using Cons.prems(5) by (simp add: written_def)
  have cmp_cr: "comparable (cand_dt c) created_dt"
    using Cons.prems(3,4) by (simp add: comparable_utc)
  have cmp_w: "\<forall>e. parse_dt lib (First_Response_At__c (written lib l created_dt w)) = Some e
                 \<longrightarrow> comparable e (cand_dt c)"
    using fra Cons.prems(4) by (simp add: comparable_def)
  have "records ?s' lead_id = Some (written lib l created_dt ?w')"
    using mem_detect_records[OF Cons.prems(1) cr cmp_cr cmp_w] fra
    by (auto simp: written_written cand_us_def)
  moreover have "\<forall>c \<in> set (?w' # cs). utcoffset (cand_dt c) = Some 0"
    using Cons.prems(4) by simp
  moreover have "\<forall>c \<in> set (?w' # cs).
                   parse_dt lib (Some (iso lib (cand_dt c))) = Some (cand_dt c)"
    using Cons.prems(5) by simp
  ultimately show ?case
    using Cons.IH[of ?s' ?w'] Cons.prems(2,3) by simp
qed

lemma apply_from_absent:
  assumes "records s lead_id = Some l"
      and "parse_dt lib (First_Response_At__c l) = None"
      and "parse_dt lib (CreatedDate l) = Some created_dt"
      and "utcoffset created_dt \<noteq> None"
      and "\<forall>c \<in> set (c0 # cs). utcoffset (cand_dt c) = Some 0"
      and "\<forall>c \<in> set (c0 # cs). parse_dt lib (Some (iso lib (cand_dt c))) = Some (cand_dt c)"
  shows "records (apply_candidates lib mem_sf lead_id (c0 # cs) s) lead_id
         = Some (written lib l created_dt (earliest_candidate c0 cs))"
proof -
  let ?s' = "snd (detect_first_touch lib mem_sf s lead_id
                    (cand_dt c0) (cand_user c0) (cand_source c0))"
  have cmp: "comparable (cand_dt c0) created_dt"
    using assms(4,5) by (simp add: comparable_utc)
  have none: "\<forall>e. parse_dt lib (First_Response_At__c l) = Some e \<longrightarrow> comparable e (cand_dt c0)"
    using assms(2) by simp
  have "records ?s' lead_id = Some (written lib l created_dt c0)"
    using mem_detect_records[OF assms(1) assms(3) cmp none] assms(2) by simp
  from apply_from_written[OF this assms(3) assms(4) assms(5) assms(6)] show ?thesis by simp
qed

text \<open>
  C1, as the code has it. The record store is the reference store: a read returns what was
  last written and a write to an existing lead succeeds. The lead has no parsable
  \<open>First_Response_At__c\<close> and a \<open>CreatedDate\<close> that parses to a timezone-aware value. The
  candidates of a non-empty list are applied in order; each of them is timezone-aware with
  offset zero (UTC) and is read back unchanged by \<open>parse_dt\<close> from the text that \<open>iso\<close>
  writes for it, which with \<open>dateutil\<close> is the case for whole seconds. Then, for every list
  with the same set of candidates (any order, any repetition), \<open>First_Response_At__c\<close> is
  the text of the minimum candidate timestamp and \<open>Time_to_First_Response__c\<close> is computed
  from that minimum. The user and the source are those of the first candidate of the list
  that has the minimum timestamp, so among candidates with equal timestamps they depend on
  the order.
\<close>

theorem first_touch_converges_to_earliest:
  assumes lead: "records s lead_id = Some l"
      and absent: "parse_dt lib (First_Response_At__c l) = None"
      and created: "parse_dt lib (CreatedDate l) = Some created_dt"
      and aware: "utcoffset created_dt \<noteq> None"
      and nonempty: "cs \<noteq> []"
      and utc: "\<forall>c \<in> set cs. utcoffset (cand_dt c) = Some 0"
      and roundtrip: "\<forall>c \<in> set cs. parse_dt lib (Some (iso lib (cand_dt c))) = Some (cand_dt c)"
  shows "(\<forall>cs'. set cs' = set cs \<longrightarrow>
            map_option (\<lambda>l'. (First_Response_At__c l', Time_to_First_Response__c l'))
              (records (apply_candidates lib mem_sf lead_id cs' s) lead_id)
            = Some (Some (iso lib (aware_utc (Min (cand_us ` set cs)))),
                    Some (ttfr_minutes_of (Min (cand_us ` set cs)) (utc_us created_dt))))
       \<and> (\<exists>w. find (\<lambda>c. cand_us c = Min (cand_us ` set cs)) cs = Some w \<and>
              records (apply_candidates lib mem_sf lead_id cs s) lead_id
              = Some (l\<lparr>First_Response_At__c := Some (iso lib (cand_dt w)),
                        First_Response_User__c := Some (cand_user w),
                        First_Response_Source__c := Some (cand_source w),
                        Time_to_First_Response__c :=
                          Some (ttfr_minutes_of (cand_us w) (utc_us created_dt))\<rparr>))"
proof -
  have final: "records (apply_candidates lib mem_sf lead_id xs s) lead_id
               = Some (written lib l created_dt (earliest_candidate (hd xs) (tl xs)))
             \<and> cand_us (earliest_candidate (hd xs) (tl xs)) = Min (cand_us ` set cs)
             \<and> iso lib (cand_dt (earliest_candidate (hd xs) (tl xs)))
                 = iso lib (aware_utc (Min (cand_us ` set cs)))
             \<and> find (\<lambda>c. cand_us c = Min (cand_us ` set cs)) xs
                 = Some (earliest_candidate (hd xs) (tl xs))"
    if same: "set xs = set cs" for xs
  proof -
    from same nonempty obtain c0 rest where xs: "xs = c0 # rest"
      by (cases xs) auto
    have u: "\<forall>c \<in> set (c0 # rest). utcoffset (cand_dt c) = Some 0"
      using utc same xs by simp
    have rt: "\<forall>c \<in> set (c0 # rest). parse_dt lib (Some (iso lib (cand_dt c))) = Some (cand_dt c)"
      using roundtrip same xs by simp
    have "set (c0 # rest) = set cs"
      using same xs by simp
    then have m: "cand_us (earliest_candidate c0 rest) = Min (cand_us ` set cs)"
      using earliest_Min[of c0 rest] by (simp only:)
    have "earliest_candidate c0 rest \<in> set (c0 # rest)"
      by (rule earliest_in)
    with u have "utcoffset (cand_dt (earliest_candidate c0 rest)) = Some 0"
      by blast
    then have "wall (cand_dt (earliest_candidate c0 rest)) = Min (cand_us ` set cs)"
      using m by (simp add: cand_us_def utc_reading)
    then have i: "iso lib (cand_dt (earliest_candidate c0 rest))
                  = iso lib (aware_utc (Min (cand_us ` set cs)))"
      by (simp add: iso_def aware_utc_def)
    show ?thesis
      using apply_from_absent[OF lead absent created aware u rt] m i
            earliest_find[of c0 rest] xs
      by simp
  qed
  show ?thesis
  proof (intro conjI allI impI)
    fix cs' assume "set cs' = set cs"
    from final[OF this]
    show "map_option (\<lambda>l'. (First_Response_At__c l', Time_to_First_Response__c l'))
              (records (apply_candidates lib mem_sf lead_id cs' s) lead_id)
            = Some (Some (iso lib (aware_utc (Min (cand_us ` set cs)))),
                    Some (ttfr_minutes_of (Min (cand_us ` set cs)) (utc_us created_dt)))"
      by (simp add: written_def)
  next
    from final[of cs]
    show "\<exists>w. find (\<lambda>c. cand_us c = Min (cand_us ` set cs)) cs = Some w \<and>
              records (apply_candidates lib mem_sf lead_id cs s) lead_id
              = Some (l\<lparr>First_Response_At__c := Some (iso lib (cand_dt w)),
                        First_Response_User__c := Some (cand_user w),
                        First_Response_Source__c := Some (cand_source w),
                        Time_to_First_Response__c :=
                          Some (ttfr_minutes_of (cand_us w) (utc_us created_dt))\<rparr>)"
      by (simp add: written_def)
  qed
qed

text \<open>
  An instance, the scenario of a Task at 10:30:00, an email at 10:25:00 and a Task at
  10:20:00 (all UTC) on a lead created at 10:00:00: every order, here also with a
  repetition, ends at 10:20:00 and 20 minutes.
\<close>

theorem first_touch_converges_to_earliest_witness:
  "records (example_store example_lead) ''00Q1'' = Some example_lead
   \<and> parse_dt example_lib (First_Response_At__c example_lead) = None
   \<and> parse_dt example_lib (CreatedDate example_lead) = Some (aware_utc 1736935200000000)
   \<and> parse_dt example_lib (Some (iso example_lib (aware_utc 1736937000000000)))
       = Some (aware_utc 1736937000000000)
   \<and> parse_dt example_lib (Some (iso example_lib (aware_utc 1736936700000000)))
       = Some (aware_utc 1736936700000000)
   \<and> parse_dt example_lib (Some (iso example_lib (aware_utc 1736936400000000)))
       = Some (aware_utc 1736936400000000)
   \<and> map_option (\<lambda>l'. (First_Response_At__c l', Time_to_First_Response__c l'))
        (records (apply_candidates example_lib mem_sf ''00Q1''
                    [cand (aware_utc 1736936400000000) ''U3'' ''Task'',
                     cand (aware_utc 1736937000000000) ''U1'' ''Task'',
                     cand (aware_utc 1736936400000000) ''U3'' ''Task'',
                     cand (aware_utc 1736936700000000) ''U2'' ''EmailMessage'']
                    (example_store example_lead)) ''00Q1'')
       = Some (Some ''2025-01-15T10:20:00.000Z'', Some 20)
   \<and> records (apply_candidates example_lib mem_sf ''00Q1''
                 [cand (aware_utc 1736937000000000) ''U1'' ''Task'',
                  cand (aware_utc 1736936700000000) ''U2'' ''EmailMessage'',
                  cand (aware_utc 1736936400000000) ''U3'' ''Task'']
                 (example_store example_lead)) ''00Q1''
       = Some (example_lead
                 \<lparr>First_Response_At__c := Some ''2025-01-15T10:20:00.000Z'',
                  First_Response_User__c := Some ''U3'',
                  First_Response_Source__c := Some ''Task'',
                  Time_to_First_Response__c := Some 20\<rparr>)"
proof -
  let ?cs = "[cand (aware_utc 1736937000000000) ''U1'' ''Task'',
              cand (aware_utc 1736936700000000) ''U2'' ''EmailMessage'',
              cand (aware_utc 1736936400000000) ''U3'' ''Task'']"
  let ?cs' = "[cand (aware_utc 1736936400000000) ''U3'' ''Task'',
               cand (aware_utc 1736937000000000) ''U1'' ''Task'',
               cand (aware_utc 1736936400000000) ''U3'' ''Task'',
               cand (aware_utc 1736936700000000) ''U2'' ''EmailMessage'']"
  have lead: "records (example_store example_lead) ''00Q1'' = Some example_lead"
    by (simp add: example_defs)
  have absent: "parse_dt example_lib (First_Response_At__c example_lead) = None"
    by (simp add: parse_dt_def example_defs)
  have created: "parse_dt example_lib (CreatedDate example_lead)
                   = Some (aware_utc 1736935200000000)"
    by (simp add: parse_dt_def example_defs)
  have aware: "utcoffset (aware_utc 1736935200000000) \<noteq> None"
    by (simp add: aware_utc_def)
  have nonempty: "?cs \<noteq> []" by simp
  have utc: "\<forall>c \<in> set ?cs. utcoffset (cand_dt c) = Some 0"
    by (simp add: cand_def aware_utc_def)
  have roundtrip: "\<forall>c \<in> set ?cs.
          parse_dt example_lib (Some (iso example_lib (cand_dt c))) = Some (cand_dt c)"
    by (simp add: parse_dt_def iso_def aware_utc_def example_defs)
  have same: "set ?cs' = set ?cs" by auto
  have m: "Min (cand_us ` set ?cs) = 1736936400000000"
    by (simp add: cand_def cand_us_def time_defs)
  have f: "find (\<lambda>c. cand_us c = 1736936400000000) ?cs
             = Some (cand (aware_utc 1736936400000000) ''U3'' ''Task'')"
    by (simp add: cand_def cand_us_def time_defs)
  have i: "iso example_lib (aware_utc 1736936400000000) = ''2025-01-15T10:20:00.000Z''"
    by (simp add: iso_def aware_utc_def example_defs)
  have t: "ttfr_minutes_of 1736936400000000 (utc_us (aware_utc 1736935200000000)) = 20"
    by (simp add: ttfr_minutes_of_def int_trunc_div_def time_defs)
  note main = first_touch_converges_to_earliest
                [OF lead absent created aware nonempty utc roundtrip]
  from main same have a:
    "map_option (\<lambda>l'. (First_Response_At__c l', Time_to_First_Response__c l'))
        (records (apply_candidates example_lib mem_sf ''00Q1'' ?cs'
                    (example_store example_lead)) ''00Q1'')
       = Some (Some ''2025-01-15T10:20:00.000Z'', Some 20)"
    unfolding m i t by blast
  from main obtain w where
    w: "find (\<lambda>c. cand_us c = 1736936400000000) ?cs = Some w"
       "records (apply_candidates example_lib mem_sf ''00Q1'' ?cs
                   (example_store example_lead)) ''00Q1''
        = Some (example_lead
                  \<lparr>First_Response_At__c := Some (iso example_lib (cand_dt w)),
                   First_Response_User__c := Some (cand_user w),
                   First_Response_Source__c := Some (cand_source w),
                   Time_to_First_Response__c :=
                     Some (ttfr_minutes_of (cand_us w) (utc_us (aware_utc 1736935200000000)))\<rparr>)"
    unfolding m by blast
  from w(1) f have weq: "w = cand (aware_utc 1736936400000000) ''U3'' ''Task''" by simp
  have wus: "cand_us (cand (aware_utc 1736936400000000) ''U3'' ''Task'') = 1736936400000000"
    by (simp add: cand_def cand_us_def time_defs)
  from w(2) i t have b:
    "records (apply_candidates example_lib mem_sf ''00Q1'' ?cs
                 (example_store example_lead)) ''00Q1''
       = Some (example_lead
                 \<lparr>First_Response_At__c := Some ''2025-01-15T10:20:00.000Z'',
                  First_Response_User__c := Some ''U3'',
                  First_Response_Source__c := Some ''Task'',
                  Time_to_First_Response__c := Some 20\<rparr>)"
    unfolding weq wus by (simp add: cand_def)
  from roundtrip have r:
    "parse_dt example_lib (Some (iso example_lib (aware_utc 1736937000000000)))
       = Some (aware_utc 1736937000000000)"
    "parse_dt example_lib (Some (iso example_lib (aware_utc 1736936700000000)))
       = Some (aware_utc 1736936700000000)"
    "parse_dt example_lib (Some (iso example_lib (aware_utc 1736936400000000)))
       = Some (aware_utc 1736936400000000)"
    by (simp_all add: cand_def)
  from lead absent created r a b show ?thesis by blast
qed

text \<open>
  C1 as stated fails in four ways, all on a lead created at 10:00:00 (UTC).
  \<^item> Two candidates with the same timestamp 10:25:00 and different users leave different
    leads, depending on which is applied first.
  \<^item> With a \<open>CreatedDate\<close> of 10:00:00.300, applying 10:25:00.500 before 10:25:00.000 leaves
    25 minutes, computed from the first, while the minimum 10:25:00.000 gives 24: the
    stored text has lost the half second, so the earlier candidate is skipped.
  \<^item> A candidate at 12:25:00 with offset +02:00 (10:25:00 UTC) is stored as the text
    \<open>12:25:00.000Z\<close>. Applied before a candidate at 10:30:00 UTC it is replaced by the
    latter, 30 minutes; applied after it, it replaces the latter, 25 minutes.
  \<^item> A naive candidate at 10:25:00 cannot be subtracted from the aware \<open>CreatedDate\<close>: the
    call raises \<open>TypeError\<close> and the lead stays without a first response.
\<close>

theorem first_touch_final_state_depends_on_order:
  "set [cand (aware_utc 1736936700000000) ''U1'' ''Task'',
        cand (aware_utc 1736936700000000) ''U2'' ''EmailMessage'']
     = set [cand (aware_utc 1736936700000000) ''U2'' ''EmailMessage'',
            cand (aware_utc 1736936700000000) ''U1'' ''Task'']
   \<and> records (apply_candidates example_lib mem_sf ''00Q1''
                 [cand (aware_utc 1736936700000000) ''U1'' ''Task'',
                  cand (aware_utc 1736936700000000) ''U2'' ''EmailMessage'']
                 (example_store example_lead)) ''00Q1''
       \<noteq> records (apply_candidates example_lib mem_sf ''00Q1''
                 [cand (aware_utc 1736936700000000) ''U2'' ''EmailMessage'',
                  cand (aware_utc 1736936700000000) ''U1'' ''Task'']
                 (example_store example_lead)) ''00Q1''
   \<and> map_option Time_to_First_Response__c
        (records (apply_candidates example_lib mem_sf ''00Q1''
                    [cand (aware_utc 1736936700500000) ''U1'' ''Task'',
                     cand (aware_utc 1736936700000000) ''U2'' ''EmailMessage'']
                    (example_store fractional_lead)) ''00Q1'')
       = Some (Some 25)
   \<and> map_option Time_to_First_Response__c
        (records (apply_candidates example_lib mem_sf ''00Q1''
                    [cand (aware_utc 1736936700000000) ''U2'' ''EmailMessage'',
                     cand (aware_utc 1736936700500000) ''U1'' ''Task'']
                    (example_store fractional_lead)) ''00Q1'')
       = Some (Some 24)
   \<and> ttfr_minutes_of
        (Min (cand_us ` set [cand (aware_utc 1736936700500000) ''U1'' ''Task'',
                             cand (aware_utc 1736936700000000) ''U2'' ''EmailMessage'']))
        1736935200300000 = 24
   \<and> cand_us (cand \<lparr>wall = 1736943900000000, utcoffset = Some 7200000000\<rparr> ''U1'' ''Task'')
       = 1736936700000000
   \<and> map_option (\<lambda>l'. (First_Response_At__c l', Time_to_First_Response__c l'))
        (records (apply_candidates example_lib mem_sf ''00Q1''
                    [cand \<lparr>wall = 1736943900000000, utcoffset = Some 7200000000\<rparr> ''U1'' ''Task'',
                     cand (aware_utc 1736937000000000) ''U2'' ''EmailMessage'']
                    (example_store example_lead)) ''00Q1'')
       = Some (Some ''2025-01-15T10:30:00.000Z'', Some 30)
   \<and> map_option (\<lambda>l'. (First_Response_At__c l', Time_to_First_Response__c l'))
        (records (apply_candidates example_lib mem_sf ''00Q1''
                    [cand (aware_utc 1736937000000000) ''U2'' ''EmailMessage'',
                     cand \<lparr>wall = 1736943900000000, utcoffset = Some 7200000000\<rparr> ''U1'' ''Task'']
                    (example_store example_lead)) ''00Q1'')
       = Some (Some ''2025-01-15T12:25:00.000Z'', Some 25)
   \<and> fst (detect_first_touch example_lib mem_sf (example_store example_lead) ''00Q1''
            (naive 1736936700000000) ''U1'' ''Task'') = Raised_TypeError
   \<and> map_option First_Response_At__c
        (records (apply_candidates example_lib mem_sf ''00Q1''
                    [cand (naive 1736936700000000) ''U1'' ''Task'']
                    (example_store example_lead)) ''00Q1'')
       = Some None"
proof -
  have a: "set [cand (aware_utc 1736936700000000) ''U1'' ''Task'',
                cand (aware_utc 1736936700000000) ''U2'' ''EmailMessage'']
     = set [cand (aware_utc 1736936700000000) ''U2'' ''EmailMessage'',
            cand (aware_utc 1736936700000000) ''U1'' ''Task'']"
    by auto
  have b: "records (apply_candidates example_lib mem_sf ''00Q1''
                 [cand (aware_utc 1736936700000000) ''U1'' ''Task'',
                  cand (aware_utc 1736936700000000) ''U2'' ''EmailMessage'']
                 (example_store example_lead)) ''00Q1''
       \<noteq> records (apply_candidates example_lib mem_sf ''00Q1''
                 [cand (aware_utc 1736936700000000) ''U2'' ''EmailMessage'',
                  cand (aware_utc 1736936700000000) ''U1'' ''Task'']
                 (example_store example_lead)) ''00Q1''"
    by (simp add: detect_defs time_defs mem_sf_defs example_defs)
  have c: "map_option Time_to_First_Response__c
        (records (apply_candidates example_lib mem_sf ''00Q1''
                    [cand (aware_utc 1736936700500000) ''U1'' ''Task'',
                     cand (aware_utc 1736936700000000) ''U2'' ''EmailMessage'']
                    (example_store fractional_lead)) ''00Q1'')
       = Some (Some 25)"
    by (simp add: detect_defs time_defs mem_sf_defs example_defs)
  have d: "map_option Time_to_First_Response__c
        (records (apply_candidates example_lib mem_sf ''00Q1''
                    [cand (aware_utc 1736936700000000) ''U2'' ''EmailMessage'',
                     cand (aware_utc 1736936700500000) ''U1'' ''Task'']
                    (example_store fractional_lead)) ''00Q1'')
       = Some (Some 24)"
    by (simp add: detect_defs time_defs mem_sf_defs example_defs)
  have e: "ttfr_minutes_of
        (Min (cand_us ` set [cand (aware_utc 1736936700500000) ''U1'' ''Task'',
                             cand (aware_utc 1736936700000000) ''U2'' ''EmailMessage'']))
        1736935200300000 = 24"
    by (simp add: ttfr_minutes_of_def int_trunc_div_def cand_def cand_us_def time_defs)
  have f: "cand_us (cand \<lparr>wall = 1736943900000000, utcoffset = Some 7200000000\<rparr> ''U1'' ''Task'')
       = 1736936700000000"
    by (simp add: cand_def cand_us_def time_defs)
  have g: "map_option (\<lambda>l'. (First_Response_At__c l', Time_to_First_Response__c l'))
        (records (apply_candidates example_lib mem_sf ''00Q1''
                    [cand \<lparr>wall = 1736943900000000, utcoffset = Some 7200000000\<rparr> ''U1'' ''Task'',
                     cand (aware_utc 1736937000000000) ''U2'' ''EmailMessage'']
                    (example_store example_lead)) ''00Q1'')
       = Some (Some ''2025-01-15T10:30:00.000Z'', Some 30)"
    by (simp add: detect_defs time_defs mem_sf_defs example_defs)
  have h: "map_option (\<lambda>l'. (First_Response_At__c l', Time_to_First_Response__c l'))
        (records (apply_candidates example_lib mem_sf ''00Q1''
                    [cand (aware_utc 1736937000000000) ''U2'' ''EmailMessage'',
                     cand \<lparr>wall = 1736943900000000, utcoffset = Some 7200000000\<rparr> ''U1'' ''Task'']
                    (example_store example_lead)) ''00Q1'')
       = Some (Some ''2025-01-15T12:25:00.000Z'', Some 25)"
    by (simp add: detect_defs time_defs mem_sf_defs example_defs)
  have i: "fst (detect_first_touch example_lib mem_sf (example_store example_lead) ''00Q1''
            (naive 1736936700000000) ''U1'' ''Task'') = Raised_TypeError"
    by (simp add: detect_defs time_defs mem_sf_defs example_defs)
  have j: "map_option First_Response_At__c
        (records (apply_candidates example_lib mem_sf ''00Q1''
                    [cand (naive 1736936700000000) ''U1'' ''Task'']
                    (example_store example_lead)) ''00Q1'')
       = Some None"
    by (simp add: detect_defs time_defs mem_sf_defs example_defs)
  from a b c d e f g h i j show ?thesis by blast
qed

section \<open>Properties of the cursor store\<close>

lemmas disk_defs = empty_disk_def locked_disk_def corrupt_disk_def

lemma read_healthy:
  "\<not> read_denied d \<Longrightarrow>
   ReplayStore_read d = Inr (case disk_file d of Some (JsonObject m) \<Rightarrow> m | _ \<Rightarrow> Map.empty)"
  by (simp add: ReplayStore_read_def read_text_def json_loads_def
      split: option.splits content.splits)

lemma set_healthy:
  "\<not> read_denied d \<Longrightarrow> \<not> write_denied d \<Longrightarrow>
   ReplayStore_set d channel replay_id =
     Inr (d\<lparr>disk_file := Some (JsonObject
            ((case disk_file d of Some (JsonObject m) \<Rightarrow> m | _ \<Rightarrow> Map.empty)
               (channel \<mapsto> replay_id)))\<rparr>)"
  by (simp add: ReplayStore_set_def read_healthy ReplayStore_write_def write_text_def
      json_dumps_def)

lemma get_healthy:
  "\<not> read_denied d \<Longrightarrow>
   ReplayStore_get d channel =
     Inr ((case disk_file d of Some (JsonObject m) \<Rightarrow> m | _ \<Rightarrow> Map.empty) channel)"
  by (simp add: ReplayStore_get_def read_healthy)


text \<open>
  C7, as the code has it. \<open>_read\<close> catches \<open>FileNotFoundError\<close> and \<open>JSONDecodeError\<close> and
  returns the empty mapping, so for a missing file and for a file that is not JSON \<open>get\<close>
  answers \<open>None\<close>, "no cursor". Every other failure of the read reaches the caller of \<open>get\<close>.
\<close>

theorem ReplayStore_get_read_failures:
  "(\<forall>e. read_text d = Inl e \<and> e \<noteq> FileNotFoundError \<and> e \<noteq> JSONDecodeError \<longrightarrow>
        ReplayStore_get d channel = Inl e)
   \<and> (read_text d = Inl FileNotFoundError \<or> read_text d = Inl JSONDecodeError
       \<or> read_text d = Inr NotJson \<longrightarrow>
        ReplayStore_get d channel = Inr None)"
  by (auto simp: ReplayStore_get_def ReplayStore_read_def json_loads_def)

text \<open>
  Instances: a file that may not be read gives \<open>PermissionError\<close> to the caller, although
  it holds a cursor; a file that is not JSON gives \<open>None\<close>.
\<close>

theorem ReplayStore_get_read_failures_witness:
  "read_text locked_disk = Inl PermissionError
   \<and> ReplayStore_get locked_disk ''/data/LeadChangeEvent'' = Inl PermissionError
   \<and> read_text corrupt_disk = Inr NotJson
   \<and> ReplayStore_get corrupt_disk ''/data/LeadChangeEvent'' = Inr None"
proof -
  have a: "read_text locked_disk = Inl PermissionError"
    by (simp add: read_text_def disk_defs)
  have b: "read_text corrupt_disk = Inr NotJson"
    by (simp add: read_text_def disk_defs)
  from ReplayStore_get_read_failures[of locked_disk "''/data/LeadChangeEvent''"]
       ReplayStore_get_read_failures[of corrupt_disk "''/data/LeadChangeEvent''"] a b
  show ?thesis by simp
qed

text \<open>
  C7 as stated fails: with the file missing the read fails with \<open>FileNotFoundError\<close>, with
  a file that is not JSON (a truncated one, say) it fails with \<open>JSONDecodeError\<close>, and in
  both cases \<open>get\<close> reports "no cursor".
\<close>

theorem ReplayStore_get_failed_read_is_no_cursor:
  "read_text empty_disk = Inl FileNotFoundError
   \<and> ReplayStore_get empty_disk ''/data/LeadChangeEvent'' = Inr None
   \<and> read_text corrupt_disk = Inr NotJson
   \<and> json_loads NotJson = Inl JSONDecodeError
   \<and> ReplayStore_get corrupt_disk ''/data/LeadChangeEvent'' = Inr None"
  by (simp add: disk_defs read_text_def json_loads_def ReplayStore_get_def ReplayStore_read_def)

text \<open>
  C8. On a file that can be read and written, for distinct channels \<open>ch1\<close> and \<open>ch2\<close>:
  \<open>set(ch1, t)\<close> succeeds, \<open>get(ch1)\<close> then returns \<open>t\<close>, a following \<open>set(ch2, t2)\<close>
  succeeds, and \<open>get(ch1)\<close> still returns \<open>t\<close>.
\<close>

theorem ReplayStore_set_get_frame:
  assumes "ch1 \<noteq> ch2" and "\<not> read_denied d" and "\<not> write_denied d"
  shows "\<exists>d1 d2. ReplayStore_set d ch1 t = Inr d1
               \<and> ReplayStore_get d1 ch1 = Inr (Some t)
               \<and> ReplayStore_set d1 ch2 t2 = Inr d2
               \<and> ReplayStore_get d2 ch1 = Inr (Some t)"
  using assms by (simp add: set_healthy get_healthy)

theorem ReplayStore_set_get_frame_witness:
  "''ch1'' \<noteq> ''ch2'' \<and> \<not> read_denied empty_disk \<and> \<not> write_denied empty_disk \<and>
   (\<exists>d1 d2. ReplayStore_set empty_disk ''ch1'' ''100'' = Inr d1
               \<and> ReplayStore_get d1 ''ch1'' = Inr (Some ''100'')
               \<and> ReplayStore_set d1 ''ch2'' ''7'' = Inr d2
               \<and> ReplayStore_get d2 ''ch1'' = Inr (Some ''100''))"
proof -
  have a: "''ch1'' \<noteq> ''ch2''" by simp
  have b: "\<not> read_denied empty_disk" by (simp add: disk_defs)
  have c: "\<not> write_denied empty_disk" by (simp add: disk_defs)
  from ReplayStore_set_get_frame[OF a b c, of "''100''" "''7''"] a b c show ?thesis by blast
qed


section \<open>Properties of the event dispatcher\<close>

lemmas subscriber_defs = example_subscriber_def example_event_def example_handler_def

lemmas process_defs = process_event_def call_handler_def on_exception_def Let_def











text \<open>
  C10. When the replay id of the envelope is absent or falsy (\<open>None\<close>, the empty string,
  zero), \<open>_process_event\<close> leaves the cursor file exactly as it was, so every channel reads
  the same cursor after as before.
\<close>

theorem process_event_falsy_replay_id_keeps_cursor:
  assumes "\<not> truthy (ev_replayId event)"
  shows "replay_store (process_event now_ms channel event sub) = replay_store sub
       \<and> (\<forall>ch. ReplayStore_get (replay_store (process_event now_ms channel event sub)) ch
               = ReplayStore_get (replay_store sub) ch)"
  using assms by (simp add: process_defs split: option.splits prod.splits)

text \<open>
  Instances: an empty-string replay id (a polled record without \<open>SystemModstamp\<close>) and a
  missing one, on a subscriber whose file holds the cursor \<open>41\<close>; the handler runs, the
  cursor stays \<open>41\<close>.
\<close>

theorem process_event_falsy_replay_id_keeps_cursor_witness:
  "\<not> truthy (ev_replayId (example_event (PStr []) ''ok''))
   \<and> \<not> truthy (ev_replayId (example_event PNone ''ok''))
   \<and> replay_store (process_event 1736935200500 ''/data/LeadChangeEvent''
        (example_event (PStr []) ''ok'') (example_subscriber\<lparr>replay_store := stored_disk\<rparr>))
       = stored_disk
   \<and> replay_store (process_event 1736935200500 ''/data/LeadChangeEvent''
        (example_event PNone ''ok'') (example_subscriber\<lparr>replay_store := stored_disk\<rparr>))
       = stored_disk
   \<and> ReplayStore_get stored_disk ''/data/LeadChangeEvent'' = Inr (Some ''41'')
   \<and> world (process_event 1736935200500 ''/data/LeadChangeEvent''
        (example_event (PStr []) ''ok'') (example_subscriber\<lparr>replay_store := stored_disk\<rparr>)) = 1"
proof -
  have a: "\<not> truthy (ev_replayId (example_event (PStr []) ''ok''))"
    by (simp add: subscriber_defs)
  have b: "\<not> truthy (ev_replayId (example_event PNone ''ok''))"
    by (simp add: subscriber_defs)
  have g: "ReplayStore_get stored_disk ''/data/LeadChangeEvent'' = Inr (Some ''41'')"
    by (simp add: get_healthy stored_disk_def)
  have w: "world (process_event 1736935200500 ''/data/LeadChangeEvent''
        (example_event (PStr []) ''ok'') (example_subscriber\<lparr>replay_store := stored_disk\<rparr>)) = 1"
    by (simp add: process_defs subscriber_defs)
  from process_event_falsy_replay_id_keeps_cursor
         [OF a, of 1736935200500 "''/data/LeadChangeEvent''"
            "example_subscriber\<lparr>replay_store := stored_disk\<rparr>"]
       process_event_falsy_replay_id_keeps_cursor
         [OF b, of 1736935200500 "''/data/LeadChangeEvent''"
            "example_subscriber\<lparr>replay_store := stored_disk\<rparr>"]
       a b g w
  show ?thesis by simp
qed

end
